theory Spec2Isabelle
  imports Main "HOL-Library.Sublist" "HOL-Library.Multiset"
begin

section \<open>JavaScript values and built-ins used by the server\<close>

text \<open>
  Values that arrive untyped (an HTTP response body parsed by the HTTP client) are JSON
  values. Numbers are modelled as integers: every number the handlers compute with
  (limits, delays, header counts, millisecond timestamps) is an integer below \<open>2^53\<close>,
  where JavaScript arithmetic is exact. A value that may be \<open>undefined\<close> is an
  \<open>option\<close>; a number that may be \<open>NaN\<close> is an \<open>int option\<close> with \<open>None\<close> for
  \<open>NaN\<close>.
\<close>

datatype json =
    JNull
  | JBool bool
  | JNum int
  | JStr string
  | JArr "json list"
  | JObj "(string \<times> json) list"

text \<open>JavaScript truthiness (\<open>if (v)\<close>, \<open>!v\<close>, \<open>v || d\<close>).\<close>

fun truthy :: "json \<Rightarrow> bool" where
  "truthy JNull = False"
| "truthy (JBool b) = b"
| "truthy (JNum n) = (n \<noteq> 0)"
| "truthy (JStr s) = (s \<noteq> [])"
| "truthy (JArr xs) = True"
| "truthy (JObj kvs) = True"

definition truthy_opt :: "json option \<Rightarrow> bool" where
  "truthy_opt v = (case v of None \<Rightarrow> False | Some j \<Rightarrow> truthy j)"

text \<open>
  Reading a property of a value other than \<open>null\<close>. An object decoded from JSON keeps the
  last of duplicate keys. The properties the server reads (\<open>results\<close>, \<open>in_database\<close>,
  \<open>verified\<close>, \<open>valid\<close>, \<open>phish_id\<close>) are no built-in property of a string, number,
  boolean or array, so reading them there gives \<open>undefined\<close>.
\<close>

fun prop_of :: "json \<Rightarrow> string \<Rightarrow> json option" where
  "prop_of (JObj kvs) k = map_of (rev kvs) k"
| "prop_of j k = None"

text \<open>\<open>s || d\<close> on an optional string and \<open>n || d\<close> on an optional number.\<close>

definition str_or :: "string option \<Rightarrow> string \<Rightarrow> string" where
  "str_or v d = (case v of None \<Rightarrow> d | Some s \<Rightarrow> if s = [] then d else s)"

definition num_or :: "int option \<Rightarrow> int \<Rightarrow> int" where
  "num_or v d = (case v of None \<Rightarrow> d | Some n \<Rightarrow> if n = 0 then d else n)"

text \<open>
  A string is the list of its characters; a character outside ASCII is present as the
  bytes of its UTF-8 encoding, which keeps equality, concatenation, emptiness and, for
  well-formed strings, the substring relation. \<open>String.prototype.trim\<close> and
  \<open>String.prototype.toLowerCase\<close> are the runtime's: \<open>trim\<close> removes the white space
  and line terminators of ECMAScript (the no-break space, the byte order mark and the
  other Unicode spaces included) from both ends, \<open>toLowerCase\<close> applies the Unicode
  case mappings. The handlers take the two functions as the parameters \<open>trim\<close> and
  \<open>toLowerCase\<close>, as they take the URL parser and the date parser of the engine;
  nothing about them is assumed, so what is proved of a handler holds with the
  runtime's functions in their place.
\<close>

text \<open>The white space \<open>parseInt\<close> skips in a header value.\<close>

definition is_space :: "char \<Rightarrow> bool" where
  "is_space c = (let n = (of_char c :: nat) in (9 \<le> n \<and> n \<le> 13) \<or> n = 32)"

text \<open>\<open>s.includes(t)\<close>: \<open>t\<close> occurs in \<open>s\<close> as a contiguous substring.\<close>

definition js_includes :: "string \<Rightarrow> string \<Rightarrow> bool" where
  "js_includes s t = sublist t s"

text \<open>
  \<open>xs.slice(0, end)\<close>: a negative \<open>end\<close> counts from the end of the array.
\<close>

definition js_slice0 :: "int \<Rightarrow> 'a list \<Rightarrow> 'a list" where
  "js_slice0 e xs =
     (if e < 0 then take (nat (int (length xs) + e)) xs else take (nat e) xs)"

text \<open>
  \<open>xs.sort(cmp)\<close>: a stable sort; the comparator's result \<open>NaN\<close> (\<open>None\<close>) counts as
  \<open>0\<close>. For a comparator that is a consistent order every stable sort returns the same
  list, the one of this insertion sort.
\<close>

fun js_insert :: "('a \<Rightarrow> 'a \<Rightarrow> int option) \<Rightarrow> 'a \<Rightarrow> 'a list \<Rightarrow> 'a list" where
  "js_insert cmp x [] = [x]"
| "js_insert cmp x (y # ys) =
     (if (case cmp x y of None \<Rightarrow> 0 | Some v \<Rightarrow> v) \<le> 0 then x # y # ys
      else y # js_insert cmp x ys)"

definition js_sort :: "('a \<Rightarrow> 'a \<Rightarrow> int option) \<Rightarrow> 'a list \<Rightarrow> 'a list" where
  "js_sort cmp xs = foldr (js_insert cmp) xs []"

text \<open>
  \<open>parseInt(s)\<close>: leading white space, an optional sign, an optional \<open>0x\<close> prefix, then
  the longest run of digits of the radix; \<open>NaN\<close> when that run is empty.
\<close>

definition digit_of :: "char \<Rightarrow> int" where
  "digit_of c =
     (let n = int (of_char c :: nat) in
      if 48 \<le> n \<and> n \<le> 57 then n - 48
      else if 97 \<le> n \<and> n \<le> 122 then n - 87
      else if 65 \<le> n \<and> n \<le> 90 then n - 55
      else 36)"

definition parseInt :: "string \<Rightarrow> int option" where
  "parseInt s =
     (let s1 = dropWhile is_space s;
          sgn_rest = (case s1 of
                        c # r \<Rightarrow> if c = CHR ''-'' then (- 1, r)
                                else if c = CHR ''+'' then (1, r) else (1, s1)
                      | [] \<Rightarrow> (1, s1));
          radix_rest = (case snd sgn_rest of
                          a # b # r \<Rightarrow>
                            if a = CHR ''0'' \<and> (b = CHR ''x'' \<or> b = CHR ''X'')
                            then (16, r) else (10, snd sgn_rest)
                        | r \<Rightarrow> (10, r));
          radix = fst radix_rest;
          ds = takeWhile (\<lambda>c. digit_of c < radix) (snd radix_rest)
      in if ds = [] then None
         else Some (fst sgn_rest * foldl (\<lambda>a c. a * radix + digit_of c) 0 ds))"

section \<open>Dates\<close>

text \<open>
  A \<open>Date\<close> is its time value: milliseconds since the epoch in UTC, \<open>None\<close> for an
  invalid date. \<open>new Date(s)\<close> reads a date-only ISO string \<open>YYYY-MM-DD\<close> of a
  calendar date as midnight UTC of that day; every other string is left to the
  engine's parser, a parameter of the model.
\<close>

definition is_digit :: "char \<Rightarrow> bool" where
  "is_digit c = (let n = (of_char c :: nat) in 48 \<le> n \<and> n \<le> 57)"

text \<open>The regular expression \<open>/^\d{4}-\d{2}-\d{2}$/\<close>.\<close>

definition dateRegex_test :: "string \<Rightarrow> bool" where
  "dateRegex_test s =
     (length s = 10 \<and> list_all is_digit (take 4 s) \<and> s ! 4 = CHR ''-'' \<and>
      list_all is_digit (take 2 (drop 5 s)) \<and> s ! 7 = CHR ''-'' \<and>
      list_all is_digit (drop 8 s))"

definition digits_val :: "string \<Rightarrow> int" where
  "digits_val ds = foldl (\<lambda>a c. a * 10 + digit_of c) 0 ds"

definition is_leap :: "int \<Rightarrow> bool" where
  "is_leap y = (y mod 4 = 0 \<and> (if y mod 100 = 0 then y mod 400 = 0 else True))"

definition days_in_month :: "int \<Rightarrow> int \<Rightarrow> int" where
  "days_in_month y m =
     (if m = 2 then (if is_leap y then 29 else 28)
      else if m = 4 \<or> m = 6 \<or> m = 9 \<or> m = 11 then 30 else 31)"

text \<open>Days from 1970-01-01 to the civil date \<open>y-m-d\<close> (proleptic Gregorian).\<close>

definition days_from_civil :: "int \<Rightarrow> int \<Rightarrow> int \<Rightarrow> int" where
  "days_from_civil y m d =
     (let y1 = (if m \<le> 2 then y - 1 else y);
          era = y1 div 400;
          yoe = y1 - era * 400;
          doy = (153 * (if m > 2 then m - 3 else m + 9) + 2) div 5 + d - 1;
          doe = yoe * 365 + yoe div 4 - yoe div 100 + doy
      in era * 146097 + doe - 719468)"

definition msPerDay :: int where
  "msPerDay = 86400000"

definition parse_date_only :: "string \<Rightarrow> int option" where
  "parse_date_only s =
     (if dateRegex_test s then
        (let y = digits_val (take 4 s);
             m = digits_val (take 2 (drop 5 s));
             d = digits_val (drop 8 s)
         in if 1 \<le> m \<and> m \<le> 12 \<and> 1 \<le> d \<and> d \<le> days_in_month y m
            then Some (days_from_civil y m d * msPerDay) else None)
      else None)"

definition new_Date :: "(string \<Rightarrow> int option) \<Rightarrow> string \<Rightarrow> int option" where
  "new_Date engine s =
     (case parse_date_only s of Some t \<Rightarrow> Some t | None \<Rightarrow> engine s)"

text \<open>
  \<open>d.setHours(23, 59, 59, 999)\<close> works in local time: the date keeps its local day and
  gets that time of day. \<open>tz\<close> is the offset of local time from UTC in milliseconds
  (local = UTC + \<open>tz\<close>), taken as fixed over the dates involved.
\<close>

definition setHours_end_of_day :: "int \<Rightarrow> int option \<Rightarrow> int option" where
  "setHours_end_of_day tz d =
     (case d of
        None \<Rightarrow> None
      | Some t \<Rightarrow> Some (((t + tz) div msPerDay) * msPerDay + 86399999 - tz))"

text \<open>Comparisons of two dates; a comparison with an invalid date is false.\<close>

definition date_gt :: "int option \<Rightarrow> int option \<Rightarrow> bool" where
  "date_gt a b = (case (a, b) of (Some x, Some y) \<Rightarrow> x > y | _ \<Rightarrow> False)"

definition date_ge :: "int option \<Rightarrow> int option \<Rightarrow> bool" where
  "date_ge a b = (case (a, b) of (Some x, Some y) \<Rightarrow> x \<ge> y | _ \<Rightarrow> False)"

definition date_le :: "int option \<Rightarrow> int option \<Rightarrow> bool" where
  "date_le a b = (case (a, b) of (Some x, Some y) \<Rightarrow> x \<le> y | _ \<Rightarrow> False)"

section \<open>Data model (types/phishtank-types.ts)\<close>

record PhishTankDetail =
  ip_address :: string
  cidr_block :: string
  announcing_network :: string
  rir :: string
  detail_time :: string

record PhishTankEntry =
  phish_id :: int
  url :: string
  phish_detail_url :: string
  submission_time :: string
  verified :: string
  verification_time :: string
  online :: string
  target :: "string option"
  details :: "PhishTankDetail list option"

record DatabaseMeta =
  total_entries :: int

record PhishTankDatabase =
  meta :: "DatabaseMeta option"
  entries :: "PhishTankEntry list option"

record RateLimitInfo =
  interval :: string
  limit :: "int option"
  count :: "int option"
  remaining :: "int option"

record PhishTankConfig =
  apiKey :: "string option"
  userAgent :: string
  rateLimitWindow :: int
  rateLimitMax :: int
  cacheTimeout :: int
  maxDatabaseAge :: int

text \<open>
  The configuration the constructor builds from the environment variables
  \<open>PHISHTANK_API_KEY\<close> and \<open>PHISHTANK_USER_AGENT\<close>. An environment variable that is
  set to the empty string is falsy, as an unset one.
\<close>

definition mk_config :: "string option \<Rightarrow> string option \<Rightarrow> PhishTankConfig" where
  "mk_config env_key env_agent =
     \<lparr> apiKey = env_key,
       userAgent = str_or env_agent ''phishtank-mcp-server/1.0.0'',
       rateLimitWindow = 60000,
       rateLimitMax = (if str_or env_key [] \<noteq> [] then 100 else 10),
       cacheTimeout = 300000,
       maxDatabaseAge = 3600000 \<rparr>"

section \<open>Errors, effects and the server's state\<close>

datatype ErrorCode = InvalidParams | MethodNotFound

text \<open>
  What a handler can throw: a protocol error, the HTTP client's error (with the status
  code of the response, if there was one), or a \<open>TypeError\<close> of the runtime.
\<close>

datatype error =
    McpError ErrorCode string
  | AxiosError "int option"
  | TypeError

text \<open>
  What a handler does to the outside world, in order: an HTTP POST (address and form
  fields), an HTTP GET (address), a \<open>setTimeout\<close> the handler awaits (milliseconds).
\<close>

datatype effect =
    HttpPost string "(string \<times> string) list"
  | HttpGet string
  | Sleep int

record 'd http_response =
  resp_data :: 'd
  resp_headers :: "string \<rightharpoonup> string"

text \<open>
  The body of a database download: an array, read at the element type the code gives
  it (\<open>PhishTankEntry[]\<close>), or any value that is not an array.
\<close>

datatype response_data =
    ArrayData "PhishTankEntry list"
  | OtherData json

text \<open>
  The store of \<open>NodeCache\<close>: a key maps to a value and the time its entry expires
  (\<open>0\<close>: never). The server keeps values of two types in its cache, URL check results
  under the keys \<open>url_check:...\<close> and the database snapshot under
  \<open>phishtank_database\<close>; the model has one typed store for each, both addressed by the
  full key.
\<close>

type_synonym 'v store = "string \<rightharpoonup> ('v \<times> int)"

text \<open>
  \<open>cache.get(key)\<close> at time \<open>now\<close>: an entry whose expiry time has passed behaves as
  absent and is deleted.
\<close>

definition cache_get :: "'v store \<Rightarrow> string \<Rightarrow> int \<Rightarrow> 'v option \<times> 'v store" where
  "cache_get c k now =
     (case c k of
        None \<Rightarrow> (None, c)
      | Some (v, t) \<Rightarrow> if t \<noteq> 0 \<and> t < now then (None, c(k := None)) else (Some v, c))"

text \<open>\<open>cache.set(key, value, ttl)\<close> at time \<open>now\<close>, \<open>ttl\<close> in seconds.\<close>

definition cache_set :: "'v store \<Rightarrow> string \<Rightarrow> 'v \<Rightarrow> int \<Rightarrow> int \<Rightarrow> 'v store" where
  "cache_set c k v ttl now = c(k \<mapsto> (v, if ttl = 0 then 0 else now + ttl * 1000))"

record server_state =
  url_cache :: "json store"
  db_cache :: "PhishTankDatabase store"
  lastRequestTime :: int

definition initial_state :: server_state where
  "initial_state = \<lparr> url_cache = Map.empty, db_cache = Map.empty, lastRequestTime = 0 \<rparr>"

section \<open>The rate throttle\<close>

text \<open>
  \<open>enforceRateLimit\<close>: \<open>now\<close> is the reading of \<open>Date.now()\<close> on entry, \<open>now'\<close> the
  reading that is recorded as \<open>lastRequestTime\<close> after the wait, if there was one.
  \<open>60000 / rateLimitMax\<close> is exact for both values the constructor gives
  \<open>rateLimitMax\<close>.
\<close>

definition enforceRateLimit ::
  "PhishTankConfig \<Rightarrow> int \<Rightarrow> int \<Rightarrow> server_state \<Rightarrow> server_state \<times> effect list" where
  "enforceRateLimit cfg now now' st =
     (let timeSinceLastRequest = now - lastRequestTime st;
          minInterval = 60000 div rateLimitMax cfg
      in (st\<lparr>lastRequestTime := now'\<rparr>,
          if timeSinceLastRequest < minInterval
          then [Sleep (minInterval - timeSinceLastRequest)] else []))"

text \<open>The total time a handler asked to sleep.\<close>

fun slept :: "effect list \<Rightarrow> int" where
  "slept [] = 0"
| "slept (Sleep w # es) = w + slept es"
| "slept (e # es) = slept es"

text \<open>
  A sequence of calls of the throttle, each with its two clock readings; the result
  lists the values of \<open>lastRequestTime\<close> the calls record.
\<close>

fun throttle_calls :: "PhishTankConfig \<Rightarrow> (int \<times> int) list \<Rightarrow> server_state \<Rightarrow> int list" where
  "throttle_calls cfg [] st = []"
| "throttle_calls cfg ((now, now') # cs) st =
     (let st' = fst (enforceRateLimit cfg now now' st)
      in lastRequestTime st' # throttle_calls cfg cs st')"

text \<open>
  The same sequence of calls as the throttle schedules it: for each call the value of
  \<open>lastRequestTime\<close> it finds, the time its wait is due (the reading on entry plus the
  time it asks the timer to sleep, the reading on entry itself when it does not wait),
  and the value of \<open>lastRequestTime\<close> it records.
\<close>

fun throttle_trace ::
  "PhishTankConfig \<Rightarrow> (int \<times> int) list \<Rightarrow> server_state \<Rightarrow> (int \<times> int \<times> int) list" where
  "throttle_trace cfg [] st = []"
| "throttle_trace cfg ((now, now') # cs) st =
     (lastRequestTime st,
      now + slept (snd (enforceRateLimit cfg now now' st)),
      lastRequestTime (fst (enforceRateLimit cfg now now' st)))
     # throttle_trace cfg cs (fst (enforceRateLimit cfg now now' st))"

section \<open>The URL check operation\<close>

text \<open>
  The one-line classification of a URL check result. The message templates are the
  constructors; \<open>PhishingDetected\<close> and \<open>NotYetVerified\<close> carry the \<open>phish_id\<close> the
  message interpolates. Reading \<open>response.results\<close> throws when the response is
  \<open>null\<close>.
\<close>

datatype url_summary =
    InvalidResponse
  | NotInDatabase
  | PhishingDetected "json option"
  | NotYetVerified "json option"
  | StatusUnclear

definition getUrlCheckSummary :: "json \<Rightarrow> error + url_summary" where
  "getUrlCheckSummary response =
     (if response = JNull then Inl TypeError
      else
        (case prop_of response ''results'' of
           None \<Rightarrow> Inr InvalidResponse
         | Some results \<Rightarrow>
             if \<not> truthy results then Inr InvalidResponse
             else
               (let in_database = prop_of results ''in_database'';
                    verified' = prop_of results ''verified'';
                    valid = prop_of results ''valid'';
                    phish_id' = prop_of results ''phish_id''
                in if \<not> truthy_opt in_database then Inr NotInDatabase
                   else if truthy_opt verified' \<and> truthy_opt valid
                     then Inr (PhishingDetected phish_id')
                   else if truthy_opt in_database then Inr (NotYetVerified phish_id')
                   else Inr StatusUnclear)))"

text \<open>\<open>a - b\<close> on numbers that may be \<open>NaN\<close>.\<close>

definition num_sub :: "int option \<Rightarrow> int option \<Rightarrow> int option" where
  "num_sub a b = (case (a, b) of (Some x, Some y) \<Rightarrow> Some (x - y) | _ \<Rightarrow> None)"

text \<open>
  The response headers map a lower-case header name to its value, a string.
\<close>

definition extractRateLimitInfo :: "(string \<rightharpoonup> string) \<Rightarrow> RateLimitInfo option" where
  "extractRateLimitInfo headers =
     (case (headers ''x-request-limit-interval'', headers ''x-request-limit'',
            headers ''x-request-count'') of
        (Some interval', Some limit', Some count') \<Rightarrow>
          if interval' \<noteq> [] \<and> limit' \<noteq> [] \<and> count' \<noteq> [] then
            Some \<lparr> interval = interval',
                   limit = parseInt limit',
                   count = parseInt count',
                   remaining = num_sub (parseInt limit') (parseInt count') \<rparr>
          else None
      | _ \<Rightarrow> None)"

text \<open>
  The object a URL check serialises as its answer. \<open>cached\<close> and \<open>rate_limit_info\<close>
  are \<open>None\<close> where the object has no such key (a key whose value is \<open>undefined\<close> is
  left out by \<open>JSON.stringify\<close>).
\<close>

record url_check_payload =
  cached :: "bool option"
  result :: json
  rate_limit_info :: "RateLimitInfo option"
  summary :: url_summary

text \<open>
  What the outside world gives one call of \<open>checkUrl\<close>: the clock reading when the
  cache is read, the two readings of the throttle, the outcome of the HTTP POST, and
  the clock reading when the result is stored. Only the readings on the path taken are
  used.
\<close>

record check_env =
  t_get :: int
  t_now :: int
  t_after :: int
  reply :: "error + json http_response"
  t_set :: int

text \<open>
  \<open>checkUrl\<close>. \<open>trim\<close> and \<open>isValidUrl\<close> (whether \<open>new URL(url)\<close> succeeds) are
  parameters;
  \<open>url_arg\<close> and \<open>format_arg\<close> are \<open>args.url\<close> and \<open>args.format\<close>, \<open>None\<close> when
  absent. The result is the answer or the error thrown, the state after the call and the
  effects in order.
\<close>

definition checkUrl ::
  "PhishTankConfig \<Rightarrow> (string \<Rightarrow> string) \<Rightarrow> (string \<Rightarrow> bool) \<Rightarrow> check_env \<Rightarrow> string option
     \<Rightarrow> string option \<Rightarrow> server_state
     \<Rightarrow> (error + url_check_payload) \<times> server_state \<times> effect list" where
  "checkUrl cfg trim isValidUrl env url_arg format_arg st =
     (let url' = trim (str_or url_arg []);
          format = str_or format_arg ''json''
      in if url' = [] then
           (Inl (McpError InvalidParams ''URL parameter is required''), st, [])
         else if \<not> isValidUrl url' then
           (Inl (McpError InvalidParams ''Invalid URL format''), st, [])
         else
           (let cacheKey = ''url_check:'' @ url';
                looked = cache_get (url_cache st) cacheKey (t_get env);
                st1 = st\<lparr>url_cache := snd looked\<rparr>
            in case (case fst looked of
                       None \<Rightarrow> None
                     | Some v \<Rightarrow> if truthy v then Some v else None) of
                 Some cached' \<Rightarrow>
                   (case getUrlCheckSummary cached' of
                      Inl e \<Rightarrow> (Inl e, st1, [])
                    | Inr s \<Rightarrow>
                        (Inr \<lparr> cached = Some True, result = cached',
                               rate_limit_info = None, summary = s \<rparr>, st1, []))
               | None \<Rightarrow>
                   (let throttled = enforceRateLimit cfg (t_now env) (t_after env) st1;
                        st2 = fst throttled;
                        formData = [(''url'', url'), (''format'', format)] @
                          (case apiKey cfg of
                             None \<Rightarrow> []
                           | Some k \<Rightarrow> if k = [] then [] else [(''app_key'', k)]);
                        effs = snd throttled @
                          [HttpPost ''http://checkurl.phishtank.com/checkurl/'' formData]
                    in case reply env of
                         Inl e \<Rightarrow> (Inl e, st2, effs)
                       | Inr response \<Rightarrow>
                           (let result' = resp_data response;
                                st3 = st2\<lparr>url_cache :=
                                  cache_set (url_cache st2) cacheKey result'
                                    (cacheTimeout cfg div 1000) (t_set env)\<rparr>
                            in case getUrlCheckSummary result' of
                                 Inl e \<Rightarrow> (Inl e, st3, effs)
                               | Inr s \<Rightarrow>
                                   (Inr \<lparr> cached = None, result = result',
                                          rate_limit_info =
                                            extractRateLimitInfo (resp_headers response),
                                          summary = s \<rparr>, st3, effs)))))"

text \<open>The HTTP requests among the effects of a call.\<close>

fun http_calls :: "effect list \<Rightarrow> effect list" where
  "http_calls [] = []"
| "http_calls (Sleep w # es) = http_calls es"
| "http_calls (e # es) = e # http_calls es"

section \<open>The batch URL check\<close>

record batch_result =
  batch_url :: string
  outcome :: "error + url_check_payload"

record batch_payload =
  batch_results :: "batch_result list"
  total :: nat
  successful :: nat
  failed :: nat
  delay_used :: int

text \<open>
  The loop of \<open>checkMultipleUrls\<close>: each URL is checked with \<open>checkUrl({ url })\<close>, an
  error is caught and recorded, and the loop sleeps \<open>delay\<close> after every URL but the
  last. \<open>envs i\<close> is what the outside world gives the check of the URL at index \<open>i\<close>.
\<close>

fun batch_loop ::
  "PhishTankConfig \<Rightarrow> (string \<Rightarrow> string) \<Rightarrow> (string \<Rightarrow> bool) \<Rightarrow> (nat \<Rightarrow> check_env) \<Rightarrow> int
     \<Rightarrow> nat \<Rightarrow> string list \<Rightarrow> server_state
     \<Rightarrow> batch_result list \<times> server_state \<times> effect list" where
  "batch_loop cfg trim isValidUrl envs delay i [] st = ([], st, [])"
| "batch_loop cfg trim isValidUrl envs delay i (u # us) st =
     (let checked = checkUrl cfg trim isValidUrl (envs i) (Some u) None st;
          pause = (if us \<noteq> [] then [Sleep delay] else []);
          later = batch_loop cfg trim isValidUrl envs delay (Suc i) us (fst (snd checked))
      in (\<lparr> batch_url = u, outcome = fst checked \<rparr> # fst later,
          fst (snd later),
          snd (snd checked) @ pause @ snd (snd later)))"

definition checkMultipleUrls ::
  "PhishTankConfig \<Rightarrow> (string \<Rightarrow> string) \<Rightarrow> (string \<Rightarrow> bool) \<Rightarrow> (nat \<Rightarrow> check_env)
     \<Rightarrow> string list option \<Rightarrow> int option \<Rightarrow> server_state
     \<Rightarrow> (error + batch_payload) \<times> server_state \<times> effect list" where
  "checkMultipleUrls cfg trim isValidUrl envs urls_arg delay_arg st =
     (let urls = (case urls_arg of None \<Rightarrow> [] | Some us \<Rightarrow> us);
          delay = max (num_or delay_arg 1000) 500
      in if urls = [] then
           (Inl (McpError InvalidParams ''URLs array is required''), st, [])
         else if length urls > 50 then
           (Inl (McpError InvalidParams ''Maximum 50 URLs allowed per batch''), st, [])
         else
           (let looped = batch_loop cfg trim isValidUrl envs delay 0 urls st;
                results = fst looped;
                successCount = length (filter (\<lambda>r. \<not> isl (outcome r)) results);
                failureCount = length results - successCount
            in (Inr \<lparr> batch_results = results, total = length urls,
                      successful = successCount, failed = failureCount,
                      delay_used = delay \<rparr>,
                fst (snd looped), snd (snd looped))))"

section \<open>The database access layer\<close>

text \<open>
  What the outside world gives one call of a database-backed handler: the clock reading
  when the cache is read, the outcome of the HTTP GET of the download, the clock reading
  when the snapshot is stored, and the two readings of \<open>new Date()\<close> the statistics use.
\<close>

record db_env =
  d_get :: int
  d_reply :: "error + response_data http_response"
  d_set :: int
  d_now :: int
  d_now2 :: int

definition downloadDatabase ::
  "PhishTankConfig \<Rightarrow> (error + response_data http_response)
     \<Rightarrow> (error + PhishTankDatabase) \<times> effect list" where
  "downloadDatabase cfg rep =
     (let baseUrl = ''http://data.phishtank.com/data'';
          format = ''online-valid.json'';
          url' = (if str_or (apiKey cfg) [] \<noteq> []
                  then baseUrl @ ''/'' @ str_or (apiKey cfg) [] @ ''/'' @ format
                  else baseUrl @ ''/'' @ format)
      in (case rep of
            Inl e \<Rightarrow> Inl e
          | Inr response \<Rightarrow>
              (let entries' = (case resp_data response of
                                 ArrayData xs \<Rightarrow> xs
                               | OtherData j \<Rightarrow> [])
               in Inr \<lparr> meta = Some \<lparr> total_entries = int (length entries') \<rparr>,
                        entries = Some entries' \<rparr>),
          [HttpGet url']))"

text \<open>
  The block every database-backed handler starts with: read the snapshot from the cache
  under \<open>phishtank_database\<close>; when it is absent, download it and store it for
  \<open>maxDatabaseAge / 1000\<close> seconds.
\<close>

definition getDatabase ::
  "PhishTankConfig \<Rightarrow> db_env \<Rightarrow> server_state
     \<Rightarrow> (error + PhishTankDatabase) \<times> server_state \<times> effect list" where
  "getDatabase cfg env st =
     (let cacheKey = ''phishtank_database'';
          looked = cache_get (db_cache st) cacheKey (d_get env);
          st1 = st\<lparr>db_cache := snd looked\<rparr>
      in case fst looked of
           Some database \<Rightarrow> (Inr database, st1, [])
         | None \<Rightarrow>
             (let downloaded = downloadDatabase cfg (d_reply env)
              in case fst downloaded of
                   Inl e \<Rightarrow> (Inl e, st1, snd downloaded)
                 | Inr database \<Rightarrow>
                     (Inr database,
                      st1\<lparr>db_cache := cache_set (db_cache st1) cacheKey database
                                         (maxDatabaseAge cfg div 1000) (d_set env)\<rparr>,
                      snd downloaded)))"

section \<open>The query engine\<close>

text \<open>
  The comparator of the three sorts by submission time, most recent first:
  \<open>new Date(b.submission_time).getTime() - new Date(a.submission_time).getTime()\<close>.
\<close>

definition by_submission_desc ::
  "(string \<Rightarrow> int option) \<Rightarrow> PhishTankEntry \<Rightarrow> PhishTankEntry \<Rightarrow> int option" where
  "by_submission_desc engine a b =
     num_sub (new_Date engine (submission_time b)) (new_Date engine (submission_time a))"

text \<open>
  \<open>sort\<close> sorts an array in place. Where the array is the one of the cached snapshot
  (the cache stores references, not copies), the snapshot in the cache changes with it.
\<close>

definition store_mutate :: "'v store \<Rightarrow> string \<Rightarrow> ('v \<Rightarrow> 'v) \<Rightarrow> 'v store" where
  "store_mutate c k f = (case c k of None \<Rightarrow> c | Some (v, t) \<Rightarrow> c(k \<mapsto> (f v, t)))"

text \<open>
  The answers of the handlers, without their \<open>summary\<close> strings (each is a sentence
  around the counts the answer already holds).
\<close>

record recent_payload =
  recent_total_entries :: int
  recent_filtered_entries :: nat
  recent_include_offline :: bool
  recent_entries :: "PhishTankEntry list"

definition getRecentPhish ::
  "PhishTankConfig \<Rightarrow> (string \<Rightarrow> int option) \<Rightarrow> db_env \<Rightarrow> int option \<Rightarrow> bool option
     \<Rightarrow> server_state \<Rightarrow> (error + recent_payload) \<times> server_state \<times> effect list" where
  "getRecentPhish cfg engine env limit_arg include_offline_arg st =
     (let limit' = min (num_or limit_arg 100) 1000;
          includeOffline = (include_offline_arg = Some True);
          got = getDatabase cfg env st;
          st1 = fst (snd got)
      in case fst got of
           Inl e \<Rightarrow> (Inl e, st1, snd (snd got))
         | Inr database \<Rightarrow>
             (let all_entries = (case entries database of None \<Rightarrow> [] | Some xs \<Rightarrow> xs);
                  kept = (if \<not> includeOffline
                          then filter (\<lambda>entry. online entry = ''yes'') all_entries
                          else all_entries);
                  sorted' = js_sort (by_submission_desc engine) kept;
                  st2 = (if includeOffline \<and> entries database \<noteq> None
                         then st1\<lparr>db_cache := store_mutate (db_cache st1)
                                    ''phishtank_database'' (\<lambda>d. d\<lparr>entries := Some sorted'\<rparr>)\<rparr>
                         else st1);
                  entries' = js_slice0 limit' sorted'
              in (Inr \<lparr> recent_total_entries =
                          (case meta database of None \<Rightarrow> 0 | Some m \<Rightarrow> total_entries m),
                        recent_filtered_entries = length entries',
                        recent_include_offline = includeOffline,
                        recent_entries = entries' \<rparr>,
                  st2, snd (snd got))))"

record target_payload =
  search_target :: string
  verified_only :: bool
  target_matches_found :: nat
  target_entries :: "PhishTankEntry list"

text \<open>
  The filter of the target search:
  \<open>entry.target?.toLowerCase().includes(target)\<close> and
  \<open>!verifiedOnly || entry.verified === 'yes'\<close>.
\<close>

definition matches_target ::
  "(string \<Rightarrow> string) \<Rightarrow> string \<Rightarrow> bool \<Rightarrow> PhishTankEntry \<Rightarrow> bool" where
  "matches_target toLowerCase target' verifiedOnly entry =
     (let matchesTarget = (case target entry of
                             None \<Rightarrow> False
                           | Some t \<Rightarrow> js_includes (toLowerCase t) target');
          matchesVerified = (\<not> verifiedOnly \<or> verified entry = ''yes'')
      in matchesTarget \<and> matchesVerified)"

definition searchPhishByTarget ::
  "PhishTankConfig \<Rightarrow> (string \<Rightarrow> string) \<Rightarrow> (string \<Rightarrow> string) \<Rightarrow> (string \<Rightarrow> int option)
     \<Rightarrow> db_env \<Rightarrow> string option \<Rightarrow> int option \<Rightarrow> bool option \<Rightarrow> server_state
     \<Rightarrow> (error + target_payload) \<times> server_state \<times> effect list" where
  "searchPhishByTarget cfg trim toLowerCase engine env target_arg limit_arg verified_only_arg st =
     (let target' = toLowerCase (trim (str_or target_arg []));
          limit' = min (num_or limit_arg 50) 500;
          verifiedOnly = (verified_only_arg \<noteq> Some False)
      in if target' = [] then
           (Inl (McpError InvalidParams ''Target parameter is required''), st, [])
         else
           (let got = getDatabase cfg env st
            in case fst got of
                 Inl e \<Rightarrow> (Inl e, fst (snd got), snd (snd got))
               | Inr database \<Rightarrow>
                   (let all_entries = (case entries database of None \<Rightarrow> [] | Some xs \<Rightarrow> xs);
                        kept = filter (matches_target toLowerCase target' verifiedOnly) all_entries;
                        entries' = js_slice0 limit' (js_sort (by_submission_desc engine) kept)
                    in (Inr \<lparr> search_target = target', verified_only = verifiedOnly,
                              target_matches_found = length entries',
                              target_entries = entries' \<rparr>,
                        fst (snd got), snd (snd got)))))"

record details_payload =
  details_phish_id :: int
  found :: bool
  details_entry :: "PhishTankEntry option"

definition getPhishDetails ::
  "PhishTankConfig \<Rightarrow> db_env \<Rightarrow> int option \<Rightarrow> server_state
     \<Rightarrow> (error + details_payload) \<times> server_state \<times> effect list" where
  "getPhishDetails cfg env phish_id_arg st =
     (case phish_id_arg of
        None \<Rightarrow> (Inl (McpError InvalidParams ''Valid phish_id is required''), st, [])
      | Some phishId \<Rightarrow>
          if phishId = 0 \<or> phishId \<le> 0 then
            (Inl (McpError InvalidParams ''Valid phish_id is required''), st, [])
          else
            (let got = getDatabase cfg env st
             in case fst got of
                  Inl e \<Rightarrow> (Inl e, fst (snd got), snd (snd got))
                | Inr database \<Rightarrow>
                    (let entry = (case entries database of
                                    None \<Rightarrow> None
                                  | Some xs \<Rightarrow> find (\<lambda>e. phish_id e = phishId) xs)
                     in (Inr \<lparr> details_phish_id = phishId, found = (entry \<noteq> None),
                               details_entry = entry \<rparr>,
                         fst (snd got), snd (snd got)))))"

text \<open>
  Counting the targets in a \<open>Map\<close>: a new key is appended, a key that is there keeps its
  place.
\<close>

fun count_target :: "string \<Rightarrow> (string \<times> nat) list \<Rightarrow> (string \<times> nat) list" where
  "count_target t [] = [(t, 1)]"
| "count_target t ((k, n) # kvs) =
     (if k = t then (k, n + 1) # kvs else (k, n) # count_target t kvs)"

definition targetCounts :: "PhishTankEntry list \<Rightarrow> (string \<times> nat) list" where
  "targetCounts es =
     foldl (\<lambda>counts entry. if str_or (target entry) [] \<noteq> []
                             then count_target (str_or (target entry) []) counts
                             else counts) [] es"

text \<open>
  \<open>date_range\<close> holds the UTC day numbers (days since the epoch) of the cutoff and of
  the second clock reading; the handler prints them as \<open>YYYY-MM-DD\<close>.
\<close>

record PhishTankStats =
  total_phish :: nat
  total_verified :: nat
  total_online :: nat
  top_targets :: "(string \<times> nat) list"
  recent_submissions :: nat
  date_range_from :: int
  date_range_to :: int

record stats_payload =
  statistics :: PhishTankStats
  analysis_period_days :: int

text \<open>
  \<open>getPhishStats\<close>. The cutoff \<open>setDate(getDate() - days)\<close> moves the local calendar
  date back by \<open>days\<close> days; with a fixed offset of local time from UTC that is
  \<open>days\<close> times 24 hours.
\<close>

definition getPhishStats ::
  "PhishTankConfig \<Rightarrow> (string \<Rightarrow> int option) \<Rightarrow> db_env \<Rightarrow> int option \<Rightarrow> int option
     \<Rightarrow> server_state \<Rightarrow> (error + stats_payload) \<times> server_state \<times> effect list" where
  "getPhishStats cfg engine env days_arg top_targets_limit_arg st =
     (let days = min (max (num_or days_arg 7) 1) 30;
          topTargetsLimit = min (num_or top_targets_limit_arg 10) 50;
          got = getDatabase cfg env st
      in case fst got of
           Inl e \<Rightarrow> (Inl e, fst (snd got), snd (snd got))
         | Inr database \<Rightarrow>
             (let all_entries = (case entries database of None \<Rightarrow> [] | Some xs \<Rightarrow> xs);
                  cutoffDate = d_now env - days * msPerDay;
                  recentEntries = filter (\<lambda>entry.
                      date_ge (new_Date engine (submission_time entry)) (Some cutoffDate))
                    all_entries;
                  totalPhish = length recentEntries;
                  totalVerified = length (filter (\<lambda>e. verified e = ''yes'') recentEntries);
                  totalOnline = length (filter (\<lambda>e. online e = ''yes'') recentEntries);
                  topTargets = js_slice0 topTargetsLimit
                    (js_sort (\<lambda>a b. Some (int (snd b) - int (snd a)))
                       (targetCounts recentEntries))
              in (Inr \<lparr> statistics =
                          \<lparr> total_phish = totalPhish, total_verified = totalVerified,
                            total_online = totalOnline, top_targets = topTargets,
                            recent_submissions = totalPhish,
                            date_range_from = cutoffDate div msPerDay,
                            date_range_to = d_now2 env div msPerDay \<rparr>,
                        analysis_period_days = days \<rparr>,
                  fst (snd got), snd (snd got))))"

record date_payload =
  date_range_start :: string
  date_range_end :: string
  date_matches_found :: nat
  date_entries :: "PhishTankEntry list"

text \<open>
  \<open>searchPhishByDate\<close>. \<open>tz\<close> is the offset of the server's local time from UTC in
  milliseconds.
\<close>

definition searchPhishByDate ::
  "PhishTankConfig \<Rightarrow> (string \<Rightarrow> int option) \<Rightarrow> int \<Rightarrow> db_env \<Rightarrow> string option
     \<Rightarrow> string option \<Rightarrow> int option \<Rightarrow> server_state
     \<Rightarrow> (error + date_payload) \<times> server_state \<times> effect list" where
  "searchPhishByDate cfg engine tz env start_date_arg end_date_arg limit_arg st =
     (let startDate = str_or start_date_arg [];
          endDate = str_or end_date_arg [];
          limit' = min (num_or limit_arg 100) 500
      in if startDate = [] \<or> endDate = [] then
           (Inl (McpError InvalidParams ''Both start_date and end_date are required''),
            st, [])
         else if \<not> dateRegex_test startDate \<or> \<not> dateRegex_test endDate then
           (Inl (McpError InvalidParams ''Dates must be in YYYY-MM-DD format''), st, [])
         else
           (let start = new_Date engine startDate;
                end' = setHours_end_of_day tz (new_Date engine endDate)
            in if date_gt start end' then
                 (Inl (McpError InvalidParams ''Start date must be before end date''),
                  st, [])
               else
                 (let got = getDatabase cfg env st
                  in case fst got of
                       Inl e \<Rightarrow> (Inl e, fst (snd got), snd (snd got))
                     | Inr database \<Rightarrow>
                         (let all_entries =
                                (case entries database of None \<Rightarrow> [] | Some xs \<Rightarrow> xs);
                              kept = filter (\<lambda>entry.
                                  let submissionDate = new_Date engine (submission_time entry)
                                  in date_ge submissionDate start \<and>
                                     date_le submissionDate end') all_entries;
                              entries' = js_slice0 limit'
                                (js_sort (by_submission_desc engine) kept)
                          in (Inr \<lparr> date_range_start = startDate,
                                    date_range_end = endDate,
                                    date_matches_found = length entries',
                                    date_entries = entries' \<rparr>,
                              fst (snd got), snd (snd got))))))"

section \<open>Sample inputs\<close>

text \<open>
  Concrete inputs for the runs below: stand-ins for \<open>trim\<close> and \<open>toLowerCase\<close> that
  are right on the sample strings (ASCII: \<open>sample_trim\<close> removes tab, line feed,
  vertical tab, form feed, carriage return and space from both ends,
  \<open>sample_toLowerCase\<close> maps \<open>A\<close> to \<open>Z\<close>), a stand-in for the URL parser that accepts the
  strings starting with \<open>http://\<close> or \<open>https://\<close> (the sample URLs are URLs), an
  outside world whose POST succeeds with a given body and headers, an upstream answer
  for a URL that is not in the database, and the rate-limit headers of the upstream API.
\<close>

definition sample_trim :: "string \<Rightarrow> string" where
  "sample_trim s = rev (dropWhile is_space (rev (dropWhile is_space s)))"

definition lower_char :: "char \<Rightarrow> char" where
  "lower_char c =
     (let n = (of_char c :: nat) in if 65 \<le> n \<and> n \<le> 90 then char_of (n + 32) else c)"

definition sample_toLowerCase :: "string \<Rightarrow> string" where
  "sample_toLowerCase s = map lower_char s"

definition sample_isValidUrl :: "string \<Rightarrow> bool" where
  "sample_isValidUrl u = (prefix ''http://'' u \<or> prefix ''https://'' u)"

definition sample_env :: "int \<Rightarrow> int \<Rightarrow> json \<Rightarrow> (string \<rightharpoonup> string) \<Rightarrow> check_env" where
  "sample_env t t' body hdrs =
     \<lparr> t_get = t, t_now = t, t_after = t',
       reply = Inr \<lparr> resp_data = body, resp_headers = hdrs \<rparr>, t_set = t' \<rparr>"

definition not_in_database :: json where
  "not_in_database =
     JObj [(''results'', JObj [(''url'', JStr ''http://a.com''), (''in_database'', JBool False)])]"

definition sample_headers :: "string \<rightharpoonup> string" where
  "sample_headers =
     [''x-request-limit-interval'' \<mapsto> ''300 Seconds'', ''x-request-limit'' \<mapsto> ''100'',
      ''x-request-count'' \<mapsto> ''5'']"

text \<open>
  A database entry with the given identifier, submission time, verification and online
  status and target; an outside world whose download succeeds with a given body; the
  outside world of a batch, ten seconds between its checks; an engine date parser that
  reads the timestamps of the upstream database (\<open>YYYY-MM-DDTHH:MM:SS+00:00\<close>) and
  takes every other string for an invalid date; and a snapshot of three entries.
\<close>

definition sample_entry ::
  "int \<Rightarrow> string \<Rightarrow> string \<Rightarrow> string \<Rightarrow> string option \<Rightarrow> PhishTankEntry" where
  "sample_entry i time v onl tgt =
     \<lparr> phish_id = i, url = ''http://phish.example/login'',
       phish_detail_url = ''http://www.phishtank.com/phish_detail.php'',
       submission_time = time, verified = v, verification_time = time,
       online = onl, target = tgt, details = None \<rparr>"

definition sample_db_env :: "int \<Rightarrow> response_data \<Rightarrow> db_env" where
  "sample_db_env t body =
     \<lparr> d_get = t, d_reply = Inr \<lparr> resp_data = body, resp_headers = Map.empty \<rparr>,
       d_set = t, d_now = t, d_now2 = t \<rparr>"

definition sample_envs :: "nat \<Rightarrow> check_env" where
  "sample_envs i =
     sample_env (1700000000000 + 10000 * int i) (1700000000000 + 10000 * int i)
       not_in_database sample_headers"

definition sample_engine :: "string \<Rightarrow> int option" where
  "sample_engine s =
     (if length s = 25 \<and> s ! 10 = CHR ''T'' \<and> list_all is_digit (take 2 (drop 11 s)) \<and>
         s ! 13 = CHR '':'' \<and> list_all is_digit (take 2 (drop 14 s)) \<and>
         s ! 16 = CHR '':'' \<and> list_all is_digit (take 2 (drop 17 s)) \<and>
         drop 19 s = ''+00:00''
      then (case parse_date_only (take 10 s) of
              None \<Rightarrow> None
            | Some day \<Rightarrow>
                Some (day + ((digits_val (take 2 (drop 11 s)) * 60
                              + digits_val (take 2 (drop 14 s))) * 60
                             + digits_val (take 2 (drop 17 s))) * 1000))
      else None)"

definition sample_entries :: "PhishTankEntry list" where
  "sample_entries =
     [sample_entry 1 ''2024-01-01T12:00:00+00:00'' ''yes'' ''yes'' (Some ''PayPal''),
      sample_entry 2 ''2024-01-02T00:00:00+00:00'' ''yes'' ''yes'' (Some ''Microsoft''),
      sample_entry 3 ''2023-12-31T23:59:59+00:00'' ''yes'' ''yes'' None]"

section \<open>Specification-side definitions\<close>

text \<open>
  Definitions that word the specification, to compare the handlers with: the entries of
  a snapshot, the submission time of an entry as a sort key, the matching of the
  target search, the effective delay of a batch, and the effects of a batch as the
  effects of its checks joined by a pause.
\<close>

definition entries_of :: "PhishTankDatabase \<Rightarrow> PhishTankEntry list" where
  "entries_of db = (case entries db of None \<Rightarrow> [] | Some xs \<Rightarrow> xs)"

definition submission_ms :: "(string \<Rightarrow> int option) \<Rightarrow> PhishTankEntry \<Rightarrow> int" where
  "submission_ms engine e =
     (case new_Date engine (submission_time e) of None \<Rightarrow> 0 | Some t \<Rightarrow> t)"

definition spec_matches_target ::
  "(string \<Rightarrow> string) \<Rightarrow> string \<Rightarrow> bool option \<Rightarrow> PhishTankEntry \<Rightarrow> bool" where
  "spec_matches_target toLowerCase query vo_arg e =
     ((case target e of
         None \<Rightarrow> False
       | Some t \<Rightarrow> sublist (toLowerCase query) (toLowerCase t)) \<and>
      (vo_arg = Some False \<or> verified e = ''yes''))"

text \<open>
  The effective delay as the specification words it: the argument clamped to
  \<open>[500, 10000]\<close>, \<open>1000\<close> when the argument is absent.
\<close>

definition spec_delay :: "int option \<Rightarrow> int" where
  "spec_delay delay_arg =
     (case delay_arg of None \<Rightarrow> 1000 | Some d \<Rightarrow> max 500 (min 10000 d))"

text \<open>The effects of each check of a batch in turn, and a list of parts joined by a separator.\<close>

fun item_effects ::
  "PhishTankConfig \<Rightarrow> (string \<Rightarrow> string) \<Rightarrow> (string \<Rightarrow> bool) \<Rightarrow> (nat \<Rightarrow> check_env) \<Rightarrow> nat
     \<Rightarrow> string list \<Rightarrow> server_state \<Rightarrow> effect list list" where
  "item_effects cfg trim isValidUrl envs i [] st = []"
| "item_effects cfg trim isValidUrl envs i (u # us) st =
     snd (snd (checkUrl cfg trim isValidUrl (envs i) (Some u) None st)) #
     item_effects cfg trim isValidUrl envs (Suc i) us
       (fst (snd (checkUrl cfg trim isValidUrl (envs i) (Some u) None st)))"

fun join_effects :: "effect \<Rightarrow> effect list list \<Rightarrow> effect list" where
  "join_effects sep [] = []"
| "join_effects sep [x] = x"
| "join_effects sep (x # y # zs) = x @ sep # join_effects sep (y # zs)"


section \<open>Properties of the rate throttle\<close>

lemma enforceRateLimit_due:
  "60000 div rateLimitMax cfg
     \<le> now + slept (snd (enforceRateLimit cfg now now' st)) - lastRequestTime st"
  by (simp add: enforceRateLimit_def Let_def)

lemma enforceRateLimit_records:
  "lastRequestTime (fst (enforceRateLimit cfg now now' st)) = now'"
  by (simp add: enforceRateLimit_def Let_def)




text \<open>
  When no wake-up comes before it is due, consecutive recorded values are a full
  interval apart.
\<close>

lemma throttle_calls_on_time:
  assumes "list_all (\<lambda>(previous, due, recorded). due \<le> recorded) (throttle_trace cfg cs st)"
  shows "successively (\<lambda>a b. 60000 div rateLimitMax cfg \<le> b - a)
           (lastRequestTime st # throttle_calls cfg cs st)"
  using assms
proof (induction cs arbitrary: st)
  case Nil
  then show ?case by simp
next
  case (Cons c cs)
  obtain now now' where c: "c = (now, now')" by (cases c)
  let ?st' = "fst (enforceRateLimit cfg now now' st)"
  from Cons.prems c have due: "now + slept (snd (enforceRateLimit cfg now now' st)) \<le> now'"
    and rest: "list_all (\<lambda>(previous, due, recorded). due \<le> recorded)
                 (throttle_trace cfg cs ?st')"
    by (simp_all add: enforceRateLimit_records)
  from enforceRateLimit_due [of cfg now now' st] due
  have gap: "60000 div rateLimitMax cfg \<le> lastRequestTime ?st' - lastRequestTime st"
    by (simp add: enforceRateLimit_records)
  from Cons.IH [OF rest] gap c show ?case by (simp add: Let_def)
qed





section \<open>Properties of the URL check\<close>

lemma checkUrl_miss_shape:
  assumes "checkUrl cfg trim isValidUrl env url_arg format_arg st = (Inr p, st', effs)"
    and "http_calls effs \<noteq> []"
  shows "\<exists>response. reply env = Inr response \<and>
           cached p = None \<and> result p = resp_data response \<and>
           rate_limit_info p = extractRateLimitInfo (resp_headers response) \<and>
           getUrlCheckSummary (resp_data response) = Inr (summary p) \<and>
           url_cache st' (''url_check:'' @ trim (str_or url_arg []))
             = Some (resp_data response,
                     if cacheTimeout cfg div 1000 = 0 then 0
                     else t_set env + cacheTimeout cfg div 1000 * 1000) \<and>
           length (http_calls effs) = 1"
  using assms
  by (auto simp: checkUrl_def Let_def cache_set_def enforceRateLimit_def
           split: if_splits option.splits sum.splits)

lemma checkUrl_accepts:
  assumes "checkUrl cfg trim isValidUrl env url_arg format_arg st = (Inr p, st', effs)"
  shows "trim (str_or url_arg []) \<noteq> []" and "isValidUrl (trim (str_or url_arg []))"
  using assms by (auto simp: checkUrl_def Let_def split: if_splits)

text \<open>
  C2 (amended). When a call of \<open>check_url\<close> is a cache miss that returns a result whose
  body is truthy, it has issued exactly one HTTP request, and a second call with the
  same arguments whose cache lookup comes within the five minutes of the entry's life
  is a cache hit: it issues no HTTP request, does not sleep, leaves the state (the
  throttle's \<open>lastRequestTime\<close> and the cache) as it is, and answers with the same
  \<open>result\<close> and \<open>summary\<close>, with \<open>cached: true\<close> and without \<open>rate_limit_info\<close>.
\<close>

theorem checkUrl_twice:
  assumes first: "checkUrl (mk_config env_key env_agent) trim isValidUrl env1 url_arg format_arg st
                    = (Inr p1, st1, effs1)"
    and miss: "http_calls effs1 \<noteq> []"
    and body: "truthy (result p1)"
    and soon: "t_get env2 \<le> t_set env1 + 300000"
  shows "length (http_calls effs1) = 1 \<and>
         checkUrl (mk_config env_key env_agent) trim isValidUrl env2 url_arg format_arg st1
           = (Inr (p1\<lparr>cached := Some True, rate_limit_info := None\<rparr>), st1, [])"
proof -
  let ?cfg = "mk_config env_key env_agent"
  let ?key = "''url_check:'' @ trim (str_or url_arg [])"
  from checkUrl_miss_shape [OF first miss] obtain response where
    "reply env1 = Inr response"
    and res: "result p1 = resp_data response"
    and s: "getUrlCheckSummary (resp_data response) = Inr (summary p1)"
    and c: "url_cache st1 ?key = Some (resp_data response,
                     if cacheTimeout ?cfg div 1000 = 0 then 0
                     else t_set env1 + cacheTimeout ?cfg div 1000 * 1000)"
    and n: "length (http_calls effs1) = 1"
    by blast
  have c': "url_cache st1 ?key = Some (resp_data response, t_set env1 + 300000)"
    using c by (simp add: mk_config_def)
  note valid = checkUrl_accepts [OF first]
  have get: "cache_get (url_cache st1) ?key (t_get env2)
               = (Some (resp_data response), url_cache st1)"
    using c' soon by (simp add: cache_get_def)
  have "checkUrl ?cfg trim isValidUrl env2 url_arg format_arg st1
          = (Inr \<lparr> cached = Some True, result = result p1,
                    rate_limit_info = None, summary = summary p1 \<rparr>, st1, [])"
    using valid get body res s by (simp add: checkUrl_def Let_def)
  moreover have "p1\<lparr>cached := Some True, rate_limit_info := None\<rparr>
      = \<lparr> cached = Some True, result = result p1,
                    rate_limit_info = None, summary = summary p1 \<rparr>"
    by (cases p1) simp
  ultimately show ?thesis using n by simp
qed

lemma sample_trim_a: "sample_trim ''http://a.com'' = ''http://a.com''"
  by (simp add: sample_trim_def is_space_def)

lemma sample_trim_space: "sample_trim '' http://a.com'' = ''http://a.com''"
  by (simp add: sample_trim_def is_space_def)

lemma parseInt_samples: "parseInt ''100'' = Some 100" "parseInt ''5'' = Some 5"
  by (simp_all add: parseInt_def is_space_def digit_of_def)

lemma sample_first_check:
  "checkUrl (mk_config None None) sample_trim sample_isValidUrl
     (sample_env 1700000000000 1700000000000 not_in_database sample_headers)
     (Some ''http://a.com'') None initial_state
   = (Inr \<lparr> cached = None, result = not_in_database,
            rate_limit_info = Some \<lparr> interval = ''300 Seconds'', limit = Some 100,
                                     count = Some 5, remaining = Some 95 \<rparr>,
            summary = NotInDatabase \<rparr>,
      \<lparr> url_cache = [''url_check:http://a.com'' \<mapsto> (not_in_database, 1700000300000)],
        db_cache = Map.empty, lastRequestTime = 1700000000000 \<rparr>,
      [HttpPost ''http://checkurl.phishtank.com/checkurl/''
         [(''url'', ''http://a.com''), (''format'', ''json'')]])"
  by (simp add: checkUrl_def Let_def sample_trim_a str_or_def sample_isValidUrl_def
      sample_env_def initial_state_def cache_get_def cache_set_def mk_config_def
      enforceRateLimit_def getUrlCheckSummary_def extractRateLimitInfo_def not_in_database_def
      sample_headers_def parseInt_samples num_sub_def truthy_opt_def)

theorem checkUrl_twice_witness:
  "checkUrl (mk_config None None) sample_trim sample_isValidUrl
     (sample_env 1700000001000 1700000006000 JNull Map.empty)
     (Some ''http://a.com'') None
     \<lparr> url_cache = [''url_check:http://a.com'' \<mapsto> (not_in_database, 1700000300000)],
       db_cache = Map.empty, lastRequestTime = 1700000000000 \<rparr>
   = (Inr \<lparr> cached = Some True, result = not_in_database, rate_limit_info = None,
            summary = NotInDatabase \<rparr>,
      \<lparr> url_cache = [''url_check:http://a.com'' \<mapsto> (not_in_database, 1700000300000)],
        db_cache = Map.empty, lastRequestTime = 1700000000000 \<rparr>, [])"
proof -
  have t: "truthy (result \<lparr> cached = None, result = not_in_database,
            rate_limit_info = Some \<lparr> interval = ''300 Seconds'', limit = Some 100,
                                     count = Some 5, remaining = Some 95 \<rparr>,
            summary = NotInDatabase \<rparr>)"
    by (simp add: not_in_database_def)
  have soon: "t_get (sample_env 1700000001000 1700000006000 JNull Map.empty)
       \<le> t_set (sample_env 1700000000000 1700000000000 not_in_database sample_headers) + 300000"
    by (simp add: sample_env_def)
  from checkUrl_twice [OF sample_first_check _ t soon] show ?thesis by simp
qed

text \<open>
  The claim without the condition on the body fails: for an upstream body that is the
  empty string the stored result is falsy, \<open>if (cached)\<close> takes it for a miss, and the
  second call waits at the throttle and issues a second HTTP request.
\<close>

theorem checkUrl_twice_counterexample:
  "checkUrl (mk_config None None) sample_trim sample_isValidUrl
     (sample_env 1700000000000 1700000000000 (JStr []) Map.empty)
     (Some ''http://a.com'') None initial_state
   = (Inr \<lparr> cached = None, result = JStr [], rate_limit_info = None,
            summary = InvalidResponse \<rparr>,
      \<lparr> url_cache = [''url_check:http://a.com'' \<mapsto> (JStr [], 1700000300000)],
        db_cache = Map.empty, lastRequestTime = 1700000000000 \<rparr>,
      [HttpPost ''http://checkurl.phishtank.com/checkurl/''
         [(''url'', ''http://a.com''), (''format'', ''json'')]])
   \<and> checkUrl (mk_config None None) sample_trim sample_isValidUrl
     (sample_env 1700000001000 1700000006000 (JStr []) Map.empty)
     (Some ''http://a.com'') None
     \<lparr> url_cache = [''url_check:http://a.com'' \<mapsto> (JStr [], 1700000300000)],
       db_cache = Map.empty, lastRequestTime = 1700000000000 \<rparr>
   = (Inr \<lparr> cached = None, result = JStr [], rate_limit_info = None,
            summary = InvalidResponse \<rparr>,
      \<lparr> url_cache = [''url_check:http://a.com'' \<mapsto> (JStr [], 1700000306000)],
        db_cache = Map.empty, lastRequestTime = 1700000006000 \<rparr>,
      [Sleep 5000, HttpPost ''http://checkurl.phishtank.com/checkurl/''
         [(''url'', ''http://a.com''), (''format'', ''json'')]])"
  by (simp add: checkUrl_def Let_def sample_trim_a str_or_def sample_isValidUrl_def
      sample_env_def initial_state_def cache_get_def cache_set_def mk_config_def
      enforceRateLimit_def getUrlCheckSummary_def extractRateLimitInfo_def)


text \<open>
  The keys of the two kinds of cache entries never coincide, so the two typed stores
  behave as the one store of the server.
\<close>

lemma cache_keys_disjoint: "''url_check:'' @ u \<noteq> ''phishtank_database''"
  by simp

lemma checkUrl_frame:
  "k \<noteq> ''url_check:'' @ trim (str_or url_arg []) \<Longrightarrow>
   url_cache (fst (snd (checkUrl cfg trim isValidUrl env url_arg format_arg st))) k = url_cache st k"
  by (auto simp: checkUrl_def Let_def cache_set_def cache_get_def enforceRateLimit_def
           split: if_splits option.splits sum.splits prod.splits)

lemma checkUrl_hit_shape:
  assumes "checkUrl cfg trim isValidUrl env url_arg format_arg st = (Inr p, st', effs)"
    and "http_calls effs = []"
  shows "cached p = Some True \<and>
         (\<exists>t. url_cache st (''url_check:'' @ trim (str_or url_arg [])) = Some (result p, t))"
  using assms
  by (auto simp: checkUrl_def Let_def cache_get_def enforceRateLimit_def
           split: if_splits option.splits sum.splits prod.splits)

text \<open>
  C4 (amended). The cache key of \<open>check_url\<close> is \<open>"url_check:"\<close> followed by the url
  argument as \<open>String.prototype.trim\<close> returns it (white space removed from both ends),
  and otherwise verbatim (case-sensitive, nothing else normalised). A call changes no
  cache entry under any other key; a hit answers with the value stored under that key,
  a miss stores its result under it; so a check of a url whose trimmed form differs (by
  case or a trailing slash, say) finds its own entry as it was. This holds for every
  function in the place of \<open>trim\<close>.
\<close>

theorem checkUrl_cache_key:
  "(\<forall>k. k \<noteq> ''url_check:'' @ trim (str_or url_arg []) \<longrightarrow>
        url_cache (fst (snd (checkUrl cfg trim isValidUrl env url_arg format_arg st))) k
          = url_cache st k)
   \<and> (\<forall>p st' effs.
        checkUrl cfg trim isValidUrl env url_arg format_arg st = (Inr p, st', effs) \<longrightarrow>
        (if http_calls effs = []
         then cached p = Some True \<and>
              (\<exists>t. url_cache st (''url_check:'' @ trim (str_or url_arg []))
                     = Some (result p, t))
         else url_cache st' (''url_check:'' @ trim (str_or url_arg []))
                = Some (result p,
                        if cacheTimeout cfg div 1000 = 0 then 0
                        else t_set env + cacheTimeout cfg div 1000 * 1000)))
   \<and> (\<forall>other. trim (str_or other []) \<noteq> trim (str_or url_arg []) \<longrightarrow>
        url_cache (fst (snd (checkUrl cfg trim isValidUrl env url_arg format_arg st)))
            (''url_check:'' @ trim (str_or other []))
          = url_cache st (''url_check:'' @ trim (str_or other [])))"
proof (intro conjI allI impI)
  fix k assume "k \<noteq> ''url_check:'' @ trim (str_or url_arg [])"
  then show "url_cache (fst (snd (checkUrl cfg trim isValidUrl env url_arg format_arg st))) k
          = url_cache st k" by (rule checkUrl_frame)
next
  fix p st' effs
  assume run: "checkUrl cfg trim isValidUrl env url_arg format_arg st = (Inr p, st', effs)"
  show "if http_calls effs = []
         then cached p = Some True \<and>
              (\<exists>t. url_cache st (''url_check:'' @ trim (str_or url_arg []))
                     = Some (result p, t))
         else url_cache st' (''url_check:'' @ trim (str_or url_arg []))
                = Some (result p,
                        if cacheTimeout cfg div 1000 = 0 then 0
                        else t_set env + cacheTimeout cfg div 1000 * 1000)"
  proof (cases "http_calls effs = []")
    case True
    with checkUrl_hit_shape [OF run True] show ?thesis by simp
  next
    case False
    from checkUrl_miss_shape [OF run False] obtain response where
      "reply env = Inr response" and "result p = resp_data response"
      and "url_cache st' (''url_check:'' @ trim (str_or url_arg []))
             = Some (resp_data response,
                     if cacheTimeout cfg div 1000 = 0 then 0
                     else t_set env + cacheTimeout cfg div 1000 * 1000)"
      by blast
    with False show ?thesis by simp
  qed
next
  fix other assume "trim (str_or other []) \<noteq> trim (str_or url_arg [])"
  then have "''url_check:'' @ trim (str_or other [])
               \<noteq> ''url_check:'' @ trim (str_or url_arg [])" by simp
  then show "url_cache (fst (snd (checkUrl cfg trim isValidUrl env url_arg format_arg st)))
            (''url_check:'' @ trim (str_or other []))
          = url_cache st (''url_check:'' @ trim (str_or other []))"
    by (rule checkUrl_frame)
qed

lemma sample_trim_case:
  "sample_trim ''https://A.com'' = ''https://A.com''" "sample_trim ''https://a.com'' = ''https://a.com''"
  by (simp_all add: sample_trim_def is_space_def)

theorem checkUrl_cache_key_witness:
  "url_cache (fst (snd (checkUrl (mk_config None None) sample_trim sample_isValidUrl
       (sample_env 1700000000000 1700000000000 not_in_database sample_headers)
       (Some ''https://A.com'') None initial_state))) ''url_check:https://a.com'' = None
   \<and> url_cache (fst (snd (checkUrl (mk_config None None) sample_trim sample_isValidUrl
       (sample_env 1700000000000 1700000000000 not_in_database sample_headers)
       (Some ''https://A.com'') None initial_state))) ''url_check:https://A.com''
       = Some (not_in_database, 1700000300000)"
proof -
  let ?run = "checkUrl (mk_config None None) sample_trim sample_isValidUrl
       (sample_env 1700000000000 1700000000000 not_in_database sample_headers)
       (Some ''https://A.com'') None initial_state"
  have run: "?run = (Inr \<lparr> cached = None, result = not_in_database,
            rate_limit_info = Some \<lparr> interval = ''300 Seconds'', limit = Some 100,
                                     count = Some 5, remaining = Some 95 \<rparr>,
            summary = NotInDatabase \<rparr>,
      \<lparr> url_cache = [''url_check:https://A.com'' \<mapsto> (not_in_database, 1700000300000)],
        db_cache = Map.empty, lastRequestTime = 1700000000000 \<rparr>,
      [HttpPost ''http://checkurl.phishtank.com/checkurl/''
         [(''url'', ''https://A.com''), (''format'', ''json'')]])"
    by (simp add: checkUrl_def Let_def sample_trim_case str_or_def sample_isValidUrl_def
      sample_env_def initial_state_def cache_get_def cache_set_def mk_config_def
      enforceRateLimit_def getUrlCheckSummary_def extractRateLimitInfo_def not_in_database_def
      sample_headers_def parseInt_samples num_sub_def truthy_opt_def)
  note key = checkUrl_cache_key [of sample_trim "Some ''https://A.com''" "mk_config None None"
      sample_isValidUrl "sample_env 1700000000000 1700000000000 not_in_database sample_headers"
      None initial_state]
  from key have other: "sample_trim (str_or (Some ''https://a.com'') [])
        \<noteq> sample_trim (str_or (Some ''https://A.com'') []) \<longrightarrow>
      url_cache (fst (snd ?run)) (''url_check:'' @ sample_trim (str_or (Some ''https://a.com'') []))
        = url_cache initial_state (''url_check:'' @ sample_trim (str_or (Some ''https://a.com'') []))"
    by blast
  have a: "url_cache (fst (snd ?run)) ''url_check:https://a.com'' = None"
    using other by (simp add: str_or_def sample_trim_case initial_state_def)
  have b: "url_cache (fst (snd ?run)) ''url_check:https://A.com''
       = Some (not_in_database, 1700000300000)"
    by (simp add: run)
  from a b show ?thesis by simp
qed

text \<open>
  The claim as stated fails: two url arguments that differ as strings by a leading
  space (U+0020, which \<open>String.prototype.trim\<close> removes as \<open>sample_trim\<close> does) use the
  same cache entry, the second call is a hit on the entry of the first.
\<close>

theorem checkUrl_cache_key_counterexample:
  "'' http://a.com'' \<noteq> ''http://a.com''
   \<and> checkUrl (mk_config None None) sample_trim sample_isValidUrl
       (sample_env 1700000001000 1700000006000 JNull Map.empty)
       (Some '' http://a.com'') None
       (fst (snd (checkUrl (mk_config None None) sample_trim sample_isValidUrl
          (sample_env 1700000000000 1700000000000 not_in_database sample_headers)
          (Some ''http://a.com'') None initial_state)))
     = (Inr \<lparr> cached = Some True, result = not_in_database, rate_limit_info = None,
              summary = NotInDatabase \<rparr>,
        \<lparr> url_cache = [''url_check:http://a.com'' \<mapsto> (not_in_database, 1700000300000)],
          db_cache = Map.empty, lastRequestTime = 1700000000000 \<rparr>, [])"
  by (simp add: sample_first_check)
     (simp add: checkUrl_def Let_def sample_trim_space str_or_def sample_isValidUrl_def
      sample_env_def cache_get_def getUrlCheckSummary_def not_in_database_def truthy_opt_def)

text \<open>\<open>parseInt\<close> reads a string of decimal digits as the number it writes.\<close>

lemma parseInt_digits:
  assumes "list_all is_digit s" and "s \<noteq> []"
  shows "parseInt s = Some (digits_val s)"
proof -
  obtain c r where s: "s = c # r" using assms(2) by (cases s) auto
  have dig: "\<And>x. is_digit x \<Longrightarrow> \<not> is_space x \<and> x \<noteq> CHR ''-'' \<and> x \<noteq> CHR ''+''
                \<and> x \<noteq> CHR ''x'' \<and> x \<noteq> CHR ''X'' \<and> digit_of x < 10"
    by (auto simp: is_digit_def is_space_def digit_of_def Let_def)
  have tw: "takeWhile (\<lambda>c. digit_of c < 10) xs = xs" if "list_all is_digit xs" for xs
    using that dig by (simp add: list_all_iff takeWhile_eq_all_conv)
  have c: "is_digit c" using assms(1) s by simp
  show ?thesis
  proof (cases r)
    case Nil
    with s c dig [OF c] show ?thesis
      by (simp add: parseInt_def digits_val_def Let_def)
  next
    case (Cons b r')
    with assms(1) s have b: "is_digit b" and r': "list_all is_digit r'" by simp_all
    from s Cons c b dig [OF c] dig [OF b] show ?thesis
      by (simp add: parseInt_def digits_val_def Let_def tw [OF r'])
  qed
qed

text \<open>
  C9 (amended). On a cache miss that returns, the answer of \<open>check_url\<close> has no
  \<open>cached\<close> key at all, and it has \<open>rate_limit_info\<close> exactly when the three
  rate-limit headers are present and not empty; then \<open>interval\<close> is the header's string
  as it is, \<open>limit\<close> and \<open>count\<close> are the headers read by \<open>parseInt\<close>, and
  \<open>remaining\<close> is \<open>limit - count\<close>.
\<close>

theorem checkUrl_miss_answer:
  assumes "checkUrl cfg trim isValidUrl env url_arg format_arg st = (Inr p, st', effs)"
    and "http_calls effs \<noteq> []"
  shows "\<exists>response. reply env = Inr response \<and> cached p = None \<and>
           result p = resp_data response \<and>
           (rate_limit_info p \<noteq> None) =
             (str_or (resp_headers response ''x-request-limit-interval'') [] \<noteq> [] \<and>
              str_or (resp_headers response ''x-request-limit'') [] \<noteq> [] \<and>
              str_or (resp_headers response ''x-request-count'') [] \<noteq> []) \<and>
           (\<forall>info. rate_limit_info p = Some info \<longrightarrow>
              resp_headers response ''x-request-limit-interval'' = Some (interval info) \<and>
              limit info = parseInt (str_or (resp_headers response ''x-request-limit'') []) \<and>
              count info = parseInt (str_or (resp_headers response ''x-request-count'') []) \<and>
              remaining info = num_sub (limit info) (count info))"
proof -
  from checkUrl_miss_shape [OF assms] obtain response where
    r: "reply env = Inr response" and c: "cached p = None"
    and res: "result p = resp_data response"
    and i: "rate_limit_info p = extractRateLimitInfo (resp_headers response)"
    by blast
  have "(extractRateLimitInfo (resp_headers response) \<noteq> None) =
             (str_or (resp_headers response ''x-request-limit-interval'') [] \<noteq> [] \<and>
              str_or (resp_headers response ''x-request-limit'') [] \<noteq> [] \<and>
              str_or (resp_headers response ''x-request-count'') [] \<noteq> [])"
    by (auto simp: extractRateLimitInfo_def str_or_def split: option.splits)
  moreover have "\<forall>info. extractRateLimitInfo (resp_headers response) = Some info \<longrightarrow>
              resp_headers response ''x-request-limit-interval'' = Some (interval info) \<and>
              limit info = parseInt (str_or (resp_headers response ''x-request-limit'') []) \<and>
              count info = parseInt (str_or (resp_headers response ''x-request-count'') []) \<and>
              remaining info = num_sub (limit info) (count info)"
    by (auto simp: extractRateLimitInfo_def str_or_def split: option.splits if_splits)
  ultimately show ?thesis using r c res i by simp
qed

theorem checkUrl_miss_answer_witness:
  "cached \<lparr> cached = None, result = not_in_database,
            rate_limit_info = Some \<lparr> interval = ''300 Seconds'', limit = Some 100,
                                     count = Some 5, remaining = Some 95 \<rparr>,
            summary = NotInDatabase \<rparr> = None
   \<and> num_sub (Some 100) (Some 5) = Some 95"
proof -
  have "http_calls [HttpPost ''http://checkurl.phishtank.com/checkurl/''
         [(''url'', ''http://a.com''), (''format'', ''json'')]] \<noteq> []" by simp
  from checkUrl_miss_answer [OF sample_first_check this] show ?thesis
    by (simp add: num_sub_def)
qed

text \<open>
  The claim as stated fails: the answer of a miss carries no \<open>cached: false\<close> marker
  (the key is absent), and \<open>interval\<close> is the string \<open>300 Seconds\<close>, not an integer.
\<close>

theorem checkUrl_miss_marker_counterexample:
  "fst (checkUrl (mk_config None None) sample_trim sample_isValidUrl
     (sample_env 1700000000000 1700000000000 not_in_database sample_headers)
     (Some ''http://a.com'') None initial_state)
   = Inr \<lparr> cached = None, result = not_in_database,
            rate_limit_info = Some \<lparr> interval = ''300 Seconds'', limit = Some 100,
                                     count = Some 5, remaining = Some 95 \<rparr>,
            summary = NotInDatabase \<rparr>"
  by (simp add: sample_first_check)

section \<open>Sample evaluations\<close>

lemma parse_date_only_samples:
  "parse_date_only ''2024-01-01'' = Some 1704067200000"
  "parse_date_only ''2024-01-02'' = Some 1704153600000"
  "parse_date_only ''2023-12-31'' = Some 1703980800000"
  by (simp_all add: parse_date_only_def dateRegex_test_def is_digit_def digits_val_def
      digit_of_def days_in_month_def is_leap_def days_from_civil_def msPerDay_def Let_def)

lemma parse_date_only_length: "length s \<noteq> 10 \<Longrightarrow> parse_date_only s = None"
  by (simp add: parse_date_only_def dateRegex_test_def)

lemma sample_engine_samples:
  "sample_engine ''2024-01-01T12:00:00+00:00'' = Some 1704110400000"
  "sample_engine ''2024-01-01T23:59:59+00:00'' = Some 1704153599000"
  "sample_engine ''2024-01-02T00:00:00+00:00'' = Some 1704153600000"
  "sample_engine ''2023-12-31T23:59:59+00:00'' = Some 1704067199000"
  by (simp_all add: sample_engine_def parse_date_only_samples is_digit_def digits_val_def
      digit_of_def Let_def)

lemma new_Date_samples:
  "new_Date sample_engine ''2024-01-01'' = Some 1704067200000"
  "new_Date sample_engine ''2024-01-02'' = Some 1704153600000"
  "new_Date sample_engine ''2024-01-01T12:00:00+00:00'' = Some 1704110400000"
  "new_Date sample_engine ''2024-01-01T23:59:59+00:00'' = Some 1704153599000"
  "new_Date sample_engine ''2024-01-02T00:00:00+00:00'' = Some 1704153600000"
  "new_Date sample_engine ''2023-12-31T23:59:59+00:00'' = Some 1704067199000"
  by (simp_all add: new_Date_def parse_date_only_samples sample_engine_samples
       parse_date_only_length)

lemma sample_getDatabase:
  "getDatabase (mk_config None None) (sample_db_env 1700000000000 (ArrayData sample_entries))
     initial_state
   = (Inr \<lparr> meta = Some \<lparr> total_entries = 3 \<rparr>, entries = Some sample_entries \<rparr>,
      \<lparr> url_cache = Map.empty,
        db_cache = [''phishtank_database'' \<mapsto>
           (\<lparr> meta = Some \<lparr> total_entries = 3 \<rparr>, entries = Some sample_entries \<rparr>,
            1700003600000)],
        lastRequestTime = 0 \<rparr>,
      [HttpGet ''http://data.phishtank.com/data/online-valid.json''])"
  by (simp add: getDatabase_def Let_def cache_get_def cache_set_def initial_state_def
      sample_db_env_def downloadDatabase_def mk_config_def str_or_def sample_entries_def)

lemma sample_sort:
  "js_sort (by_submission_desc sample_engine) sample_entries
   = [sample_entry 2 ''2024-01-02T00:00:00+00:00'' ''yes'' ''yes'' (Some ''Microsoft''),
      sample_entry 1 ''2024-01-01T12:00:00+00:00'' ''yes'' ''yes'' (Some ''PayPal''),
      sample_entry 3 ''2023-12-31T23:59:59+00:00'' ''yes'' ''yes'' None]"
  by (simp add: js_sort_def by_submission_desc_def sample_entries_def sample_entry_def
      new_Date_samples num_sub_def)

section \<open>Properties of the batch URL check\<close>

lemma batch_loop_effects:
  "snd (snd (batch_loop cfg trim isValidUrl envs delay i us st))
     = join_effects (Sleep delay) (item_effects cfg trim isValidUrl envs i us st)"
proof (induction us arbitrary: i st)
  case Nil
  then show ?case by simp
next
  case (Cons u us)
  show ?case
  proof (cases us)
    case Nil
    then show ?thesis by (simp add: Let_def)
  next
    case (Cons u' us')
    with Cons.IH [of "Suc i" "fst (snd (checkUrl cfg trim isValidUrl (envs i) (Some u) None st))"]
    show ?thesis by (simp add: Let_def)
  qed
qed

text \<open>
  C3 (amended). For every delay argument of \<open>check_multiple_urls\<close> that is absent or at
  most 10000, the effective inter-item delay is 1000 when the argument is absent or 0,
  and otherwise the argument raised to at least 500 (the argument clamped to
  \<open>[500, 10000]\<close>); the batch sleeps that long between two consecutive checks and
  reports it as \<open>delay_used\<close>.
\<close>

theorem checkMultipleUrls_delay:
  assumes "checkMultipleUrls cfg trim isValidUrl envs urls_arg delay_arg st = (Inr p, st', effs)"
  shows "(delay_arg = Some 0 \<longrightarrow> delay_used p = 1000)
       \<and> (delay_arg \<noteq> Some 0 \<and> (\<forall>d. delay_arg = Some d \<longrightarrow> d \<le> 10000)
            \<longrightarrow> delay_used p = spec_delay delay_arg)
       \<and> (\<exists>urls. urls_arg = Some urls \<and>
            effs = join_effects (Sleep (delay_used p))
                     (item_effects cfg trim isValidUrl envs 0 urls st))"
proof -
  from assms have p: "fst (checkMultipleUrls cfg trim isValidUrl envs urls_arg delay_arg st) = Inr p"
    and e: "snd (snd (checkMultipleUrls cfg trim isValidUrl envs urls_arg delay_arg st)) = effs"
    by simp_all
  from p obtain urls where u: "urls_arg = Some urls" "urls \<noteq> []" "\<not> 50 < length urls"
    by (auto simp: checkMultipleUrls_def Let_def split: if_splits option.splits)
  from p u have d: "delay_used p = max (num_or delay_arg 1000) 500"
    by (auto simp: checkMultipleUrls_def Let_def)
  from e u have "effs = snd (snd (batch_loop cfg trim isValidUrl envs
                                    (max (num_or delay_arg 1000) 500) 0 urls st))"
    by (simp add: checkMultipleUrls_def Let_def)
  with d u have "effs = join_effects (Sleep (delay_used p))
                     (item_effects cfg trim isValidUrl envs 0 urls st)"
    by (simp add: batch_loop_effects)
  with d u show ?thesis
    by (auto simp: num_or_def spec_delay_def split: option.splits)
qed

lemma sample_trim_b: "sample_trim ''http://b.com'' = ''http://b.com''"
  by (simp add: sample_trim_def is_space_def)

lemma sample_batch:
  "checkMultipleUrls (mk_config None None) sample_trim sample_isValidUrl sample_envs
     (Some [''http://a.com'', ''http://b.com'']) (Some 0) initial_state
   = (Inr \<lparr> batch_results =
        [\<lparr> batch_url = ''http://a.com'',
           outcome = Inr \<lparr> cached = None, result = not_in_database,
              rate_limit_info = Some \<lparr> interval = ''300 Seconds'', limit = Some 100,
                                       count = Some 5, remaining = Some 95 \<rparr>,
              summary = NotInDatabase \<rparr> \<rparr>,
         \<lparr> batch_url = ''http://b.com'',
           outcome = Inr \<lparr> cached = None, result = not_in_database,
              rate_limit_info = Some \<lparr> interval = ''300 Seconds'', limit = Some 100,
                                       count = Some 5, remaining = Some 95 \<rparr>,
              summary = NotInDatabase \<rparr> \<rparr>],
        total = 2, successful = 2, failed = 0, delay_used = 1000 \<rparr>,
      \<lparr> url_cache = [''url_check:http://a.com'' \<mapsto> (not_in_database, 1700000300000),
                     ''url_check:http://b.com'' \<mapsto> (not_in_database, 1700000310000)],
        db_cache = Map.empty, lastRequestTime = 1700000010000 \<rparr>,
      [HttpPost ''http://checkurl.phishtank.com/checkurl/''
         [(''url'', ''http://a.com''), (''format'', ''json'')],
       Sleep 1000,
       HttpPost ''http://checkurl.phishtank.com/checkurl/''
         [(''url'', ''http://b.com''), (''format'', ''json'')]])"
  by (simp add: checkMultipleUrls_def num_or_def Let_def checkUrl_def sample_trim_a sample_trim_b
      str_or_def sample_isValidUrl_def sample_envs_def
      sample_env_def initial_state_def cache_get_def cache_set_def mk_config_def
      enforceRateLimit_def getUrlCheckSummary_def extractRateLimitInfo_def not_in_database_def
      sample_headers_def parseInt_samples num_sub_def truthy_opt_def)

lemma sample_trim_invalid: "sample_trim ''not a url'' = ''not a url''" "sample_trim ''ftp'' = ''ftp''"
  by (simp_all add: sample_trim_def is_space_def)

lemma sample_batch_invalid:
  "checkMultipleUrls (mk_config None None) sample_trim sample_isValidUrl sample_envs
     (Some [''not a url'', ''ftp'']) (Some 200) initial_state
   = (Inr \<lparr> batch_results =
        [\<lparr> batch_url = ''not a url'',
           outcome = Inl (McpError InvalidParams ''Invalid URL format'') \<rparr>,
         \<lparr> batch_url = ''ftp'',
           outcome = Inl (McpError InvalidParams ''Invalid URL format'') \<rparr>],
        total = 2, successful = 0, failed = 2, delay_used = 500 \<rparr>,
      initial_state, [Sleep 500])"
  by (simp add: checkMultipleUrls_def num_or_def Let_def checkUrl_def sample_trim_invalid
      str_or_def sample_isValidUrl_def)

theorem checkMultipleUrls_delay_witness:
  "join_effects (Sleep 1000)
     (item_effects (mk_config None None) sample_trim sample_isValidUrl sample_envs 0
        [''http://a.com'', ''http://b.com''] initial_state)
   = [HttpPost ''http://checkurl.phishtank.com/checkurl/''
         [(''url'', ''http://a.com''), (''format'', ''json'')],
      Sleep 1000,
      HttpPost ''http://checkurl.phishtank.com/checkurl/''
         [(''url'', ''http://b.com''), (''format'', ''json'')]]
   \<and> spec_delay (Some 200) = 500
   \<and> join_effects (Sleep 500)
     (item_effects (mk_config None None) sample_trim sample_isValidUrl sample_envs 0
        [''not a url'', ''ftp''] initial_state) = [Sleep 500]"
proof -
  from checkMultipleUrls_delay [OF sample_batch]
  have a: "join_effects (Sleep 1000)
     (item_effects (mk_config None None) sample_trim sample_isValidUrl sample_envs 0
        [''http://a.com'', ''http://b.com''] initial_state)
   = [HttpPost ''http://checkurl.phishtank.com/checkurl/''
         [(''url'', ''http://a.com''), (''format'', ''json'')],
      Sleep 1000,
      HttpPost ''http://checkurl.phishtank.com/checkurl/''
         [(''url'', ''http://b.com''), (''format'', ''json'')]]"
    by simp
  from checkMultipleUrls_delay [OF sample_batch_invalid]
  have b: "spec_delay (Some 200) = 500 \<and> join_effects (Sleep 500)
     (item_effects (mk_config None None) sample_trim sample_isValidUrl sample_envs 0
        [''not a url'', ''ftp''] initial_state) = [Sleep 500]"
    by simp
  from a b show ?thesis by simp
qed

text \<open>
  The claim as stated fails at the delay argument 0: the clamp gives 500, the batch
  uses the default 1000.
\<close>

theorem checkMultipleUrls_delay_counterexample:
  "map_sum id delay_used
     (fst (checkMultipleUrls (mk_config None None) sample_trim sample_isValidUrl sample_envs
        (Some [''http://a.com'', ''http://b.com'']) (Some 0) initial_state)) = Inr 1000
   \<and> spec_delay (Some 0) = 500"
  by (simp add: sample_batch spec_delay_def)

text \<open>
  The handler applies no upper bound: a delay argument above the documented maximum of
  10000 is used as it is.
\<close>

lemma checkMultipleUrls_delay_unbounded:
  "map_sum id delay_used
     (fst (checkMultipleUrls (mk_config None None) sample_trim sample_isValidUrl sample_envs
        (Some [''http://a.com'', ''http://b.com'']) (Some 20000) initial_state)) = Inr 20000"
  by (simp add: checkMultipleUrls_def num_or_def Let_def)


section \<open>Properties of the database access layer\<close>

text \<open>
  C5. For every upstream response body of a download that succeeds, the download
  returns a snapshot (never an error): its entries are the body when the body is a
  list and the empty list otherwise, and its \<open>total_entries\<close> is the length of that
  list.
\<close>

theorem downloadDatabase_snapshot:
  "\<exists>db es. fst (downloadDatabase cfg (Inr response)) = Inr db \<and>
      entries db = Some es \<and>
      (\<forall>xs. resp_data response = ArrayData xs \<longrightarrow> es = xs) \<and>
      ((\<forall>xs. resp_data response \<noteq> ArrayData xs) \<longrightarrow> es = []) \<and>
      meta db = Some \<lparr> total_entries = int (length es) \<rparr>"
  by (cases "resp_data response") (simp_all add: downloadDatabase_def Let_def)

theorem downloadDatabase_snapshot_witness:
  "fst (downloadDatabase (mk_config None None)
     (Inr \<lparr> resp_data = ArrayData [sample_entry 1 ''2024-01-01T12:00:00+00:00'' ''yes'' ''yes'' None],
            resp_headers = Map.empty \<rparr>))
   = Inr \<lparr> meta = Some \<lparr> total_entries = 1 \<rparr>,
           entries = Some [sample_entry 1 ''2024-01-01T12:00:00+00:00'' ''yes'' ''yes'' None] \<rparr>
   \<and> fst (downloadDatabase (mk_config None None)
     (Inr \<lparr> resp_data = OtherData (JStr ''<html>busy</html>''), resp_headers = Map.empty \<rparr>))
   = Inr \<lparr> meta = Some \<lparr> total_entries = 0 \<rparr>, entries = Some [] \<rparr>"
proof -
  let ?r1 = "\<lparr> resp_data = ArrayData [sample_entry 1 ''2024-01-01T12:00:00+00:00'' ''yes'' ''yes'' None],
            resp_headers = Map.empty \<rparr>"
  let ?r2 = "\<lparr> resp_data = OtherData (JStr ''<html>busy</html>''), resp_headers = Map.empty \<rparr>"
  from downloadDatabase_snapshot [of "mk_config None None" ?r1]
  obtain db es where "fst (downloadDatabase (mk_config None None) (Inr ?r1)) = Inr db"
    "entries db = Some es" "es = [sample_entry 1 ''2024-01-01T12:00:00+00:00'' ''yes'' ''yes'' None]"
    "meta db = Some \<lparr> total_entries = int (length es) \<rparr>"
    by auto
  then have a: "fst (downloadDatabase (mk_config None None) (Inr ?r1))
      = Inr \<lparr> meta = Some \<lparr> total_entries = 1 \<rparr>,
           entries = Some [sample_entry 1 ''2024-01-01T12:00:00+00:00'' ''yes'' ''yes'' None] \<rparr>"
    by (cases db) simp
  from downloadDatabase_snapshot [of "mk_config None None" ?r2]
  obtain db' es' where "fst (downloadDatabase (mk_config None None) (Inr ?r2)) = Inr db'"
    "entries db' = Some es'" "es' = []"
    "meta db' = Some \<lparr> total_entries = int (length es') \<rparr>"
    by auto
  then have b: "fst (downloadDatabase (mk_config None None) (Inr ?r2))
      = Inr \<lparr> meta = Some \<lparr> total_entries = 0 \<rparr>, entries = Some [] \<rparr>"
    by (cases db') simp
  from a b show ?thesis by simp
qed

lemma downloadDatabase_no_sleep: "slept (snd (downloadDatabase cfg rep)) = 0"
  by (simp add: downloadDatabase_def Let_def)

lemma getDatabase_throttle:
  "lastRequestTime (fst (snd (getDatabase cfg env st))) = lastRequestTime st \<and>
   slept (snd (snd (getDatabase cfg env st))) = 0"
  by (simp add: getDatabase_def Let_def downloadDatabase_no_sleep
           split: option.splits sum.splits)

text \<open>
  C6. The database download never passes through the rate throttle: it does not sleep,
  and every database-backed handler (\<open>get_recent_phish\<close>, \<open>search_phish_by_target\<close>,
  \<open>get_phish_details\<close>, \<open>search_phish_by_date\<close>, \<open>get_phish_stats\<close>), whether it
  downloads or not, leaves \<open>lastRequestTime\<close> as it was and does not sleep.
\<close>

theorem download_unthrottled:
  "slept (snd (downloadDatabase cfg rep)) = 0
   \<and> lastRequestTime (fst (snd (getDatabase cfg env st))) = lastRequestTime st
   \<and> lastRequestTime (fst (snd (getRecentPhish cfg engine env limit_arg io_arg st)))
       = lastRequestTime st
   \<and> slept (snd (snd (getRecentPhish cfg engine env limit_arg io_arg st))) = 0
   \<and> lastRequestTime (fst (snd (searchPhishByTarget cfg trim toLowerCase engine env target_arg limit_arg vo_arg st)))
       = lastRequestTime st
   \<and> slept (snd (snd (searchPhishByTarget cfg trim toLowerCase engine env target_arg limit_arg vo_arg st))) = 0
   \<and> lastRequestTime (fst (snd (getPhishDetails cfg env id_arg st))) = lastRequestTime st
   \<and> slept (snd (snd (getPhishDetails cfg env id_arg st))) = 0
   \<and> lastRequestTime (fst (snd (searchPhishByDate cfg engine tz env start_arg end_arg limit_arg st)))
       = lastRequestTime st
   \<and> slept (snd (snd (searchPhishByDate cfg engine tz env start_arg end_arg limit_arg st))) = 0
   \<and> lastRequestTime (fst (snd (getPhishStats cfg engine env days_arg top_arg st)))
       = lastRequestTime st
   \<and> slept (snd (snd (getPhishStats cfg engine env days_arg top_arg st))) = 0"
proof -
  note g = getDatabase_throttle [of cfg env st]
  have recent: "lastRequestTime (fst (snd (getRecentPhish cfg engine env limit_arg io_arg st)))
       = lastRequestTime st
     \<and> slept (snd (snd (getRecentPhish cfg engine env limit_arg io_arg st))) = 0"
    using g by (simp add: getRecentPhish_def Let_def split: sum.splits)
  have tgt: "lastRequestTime (fst (snd (searchPhishByTarget cfg trim toLowerCase engine env target_arg limit_arg vo_arg st)))
       = lastRequestTime st
     \<and> slept (snd (snd (searchPhishByTarget cfg trim toLowerCase engine env target_arg limit_arg vo_arg st))) = 0"
    using g by (simp add: searchPhishByTarget_def Let_def split: sum.splits)
  have det: "lastRequestTime (fst (snd (getPhishDetails cfg env id_arg st))) = lastRequestTime st
     \<and> slept (snd (snd (getPhishDetails cfg env id_arg st))) = 0"
    using g by (simp add: getPhishDetails_def Let_def split: sum.splits option.splits)
  have dat: "lastRequestTime (fst (snd (searchPhishByDate cfg engine tz env start_arg end_arg limit_arg st)))
       = lastRequestTime st
     \<and> slept (snd (snd (searchPhishByDate cfg engine tz env start_arg end_arg limit_arg st))) = 0"
    using g by (simp add: searchPhishByDate_def Let_def split: sum.splits)
  have sta: "lastRequestTime (fst (snd (getPhishStats cfg engine env days_arg top_arg st)))
       = lastRequestTime st
     \<and> slept (snd (snd (getPhishStats cfg engine env days_arg top_arg st))) = 0"
    using g by (simp add: getPhishStats_def Let_def split: sum.splits)
  from downloadDatabase_no_sleep [of cfg rep] g recent tgt det dat sta show ?thesis by simp
qed


theorem download_unthrottled_witness:
  "snd (snd (getPhishDetails (mk_config None None)
       (sample_db_env 1700000000000 (ArrayData sample_entries)) (Some 2) initial_state))
     = [HttpGet ''http://data.phishtank.com/data/online-valid.json'']
   \<and> lastRequestTime (fst (snd (getPhishDetails (mk_config None None)
       (sample_db_env 1700000000000 (ArrayData sample_entries)) (Some 2) initial_state)))
     = 0"
proof -
  have effs: "snd (snd (getPhishDetails (mk_config None None)
       (sample_db_env 1700000000000 (ArrayData sample_entries)) (Some 2) initial_state))
     = [HttpGet ''http://data.phishtank.com/data/online-valid.json'']"
    by (simp add: getPhishDetails_def Let_def sample_getDatabase)
  from download_unthrottled [of "mk_config None None"
      "d_reply (sample_db_env 1700000000000 (ArrayData sample_entries))"
      "sample_db_env 1700000000000 (ArrayData sample_entries)" initial_state
      sample_engine None None sample_trim sample_toLowerCase None None "Some 2" 0
      None None None None]
  have "lastRequestTime (fst (snd (getPhishDetails (mk_config None None)
       (sample_db_env 1700000000000 (ArrayData sample_entries)) (Some 2) initial_state)))
     = lastRequestTime initial_state"
    by blast
  with effs show ?thesis by (simp add: initial_state_def)
qed

section \<open>Properties of the query engine\<close>

text \<open>
  C10. An optional numeric argument given as 0 is indistinguishable from an omitted
  one, and the default is substituted: limit 0 is limit 100 in \<open>get_recent_phish\<close> and
  \<open>search_phish_by_date\<close> (50 in \<open>search_phish_by_target\<close>), days 0 is 7 and
  top_targets_limit 0 is 10 in \<open>get_phish_stats\<close>, delay 0 is 1000 in
  \<open>check_multiple_urls\<close>. The lower bound 1 of a limit is never applied: a limit
  below 1 other than 0 is passed to \<open>slice\<close> as it is.
\<close>

theorem zero_is_default:
  "getRecentPhish cfg engine env (Some 0) io_arg st
     = getRecentPhish cfg engine env None io_arg st
   \<and> getRecentPhish cfg engine env None io_arg st
     = getRecentPhish cfg engine env (Some 100) io_arg st
   \<and> searchPhishByDate cfg engine tz env start_arg end_arg (Some 0) st
     = searchPhishByDate cfg engine tz env start_arg end_arg None st
   \<and> searchPhishByDate cfg engine tz env start_arg end_arg None st
     = searchPhishByDate cfg engine tz env start_arg end_arg (Some 100) st
   \<and> searchPhishByTarget cfg trim toLowerCase engine env target_arg (Some 0) vo_arg st
     = searchPhishByTarget cfg trim toLowerCase engine env target_arg None vo_arg st
   \<and> searchPhishByTarget cfg trim toLowerCase engine env target_arg None vo_arg st
     = searchPhishByTarget cfg trim toLowerCase engine env target_arg (Some 50) vo_arg st
   \<and> getPhishStats cfg engine env (Some 0) top_arg st
     = getPhishStats cfg engine env None top_arg st
   \<and> getPhishStats cfg engine env None top_arg st
     = getPhishStats cfg engine env (Some 7) top_arg st
   \<and> getPhishStats cfg engine env days_arg (Some 0) st
     = getPhishStats cfg engine env days_arg None st
   \<and> getPhishStats cfg engine env days_arg None st
     = getPhishStats cfg engine env days_arg (Some 10) st
   \<and> checkMultipleUrls cfg trim isValidUrl envs urls_arg (Some 0) st
     = checkMultipleUrls cfg trim isValidUrl envs urls_arg None st
   \<and> checkMultipleUrls cfg trim isValidUrl envs urls_arg None st
     = checkMultipleUrls cfg trim isValidUrl envs urls_arg (Some 1000) st
   \<and> (\<forall>n db. n \<noteq> 0 \<and> n < 1 \<and> fst (getDatabase cfg env st) = Inr db \<longrightarrow>
        map_sum id recent_entries (fst (getRecentPhish cfg engine env (Some n) io_arg st))
          = Inr (js_slice0 n (js_sort (by_submission_desc engine)
                   (if io_arg = Some True then entries_of db
                    else filter (\<lambda>entry. online entry = ''yes'') (entries_of db)))))
   \<and> (\<forall>n db p. n \<noteq> 0 \<and> n < 1 \<and> fst (getDatabase cfg env st) = Inr db \<and>
        fst (searchPhishByDate cfg engine tz env start_arg end_arg (Some n) st) = Inr p \<longrightarrow>
        date_entries p
          = js_slice0 n (js_sort (by_submission_desc engine)
              (filter (\<lambda>entry.
                  date_ge (new_Date engine (submission_time entry))
                    (new_Date engine (str_or start_arg [])) \<and>
                  date_le (new_Date engine (submission_time entry))
                    (setHours_end_of_day tz (new_Date engine (str_or end_arg []))))
                (entries_of db))))"
proof -
  have recent: "\<forall>n db. n \<noteq> 0 \<and> n < 1 \<and> fst (getDatabase cfg env st) = Inr db \<longrightarrow>
        map_sum id recent_entries (fst (getRecentPhish cfg engine env (Some n) io_arg st))
          = Inr (js_slice0 n (js_sort (by_submission_desc engine)
                   (if io_arg = Some True then entries_of db
                    else filter (\<lambda>entry. online entry = ''yes'') (entries_of db))))"
    by (simp add: getRecentPhish_def Let_def num_or_def entries_of_def)
  have dated: "\<forall>n db p. n \<noteq> 0 \<and> n < 1 \<and> fst (getDatabase cfg env st) = Inr db \<and>
        fst (searchPhishByDate cfg engine tz env start_arg end_arg (Some n) st) = Inr p \<longrightarrow>
        date_entries p
          = js_slice0 n (js_sort (by_submission_desc engine)
              (filter (\<lambda>entry.
                  date_ge (new_Date engine (submission_time entry))
                    (new_Date engine (str_or start_arg [])) \<and>
                  date_le (new_Date engine (submission_time entry))
                    (setHours_end_of_day tz (new_Date engine (str_or end_arg []))))
                (entries_of db)))"
    by (auto simp: searchPhishByDate_def Let_def num_or_def entries_of_def split: if_splits)
  show ?thesis
    using recent dated
    by (simp add: getRecentPhish_def searchPhishByDate_def searchPhishByTarget_def
        getPhishStats_def checkMultipleUrls_def num_or_def)
qed

theorem zero_is_default_witness:
  "map_sum id recent_entries
     (fst (getRecentPhish (mk_config None None) sample_engine
        (sample_db_env 1700000000000 (ArrayData sample_entries)) (Some (- 1)) (Some True)
        initial_state))
   = Inr [sample_entry 2 ''2024-01-02T00:00:00+00:00'' ''yes'' ''yes'' (Some ''Microsoft''),
          sample_entry 1 ''2024-01-01T12:00:00+00:00'' ''yes'' ''yes'' (Some ''PayPal'')]"
proof -
  have db: "fst (getDatabase (mk_config None None)
       (sample_db_env 1700000000000 (ArrayData sample_entries)) initial_state)
     = Inr \<lparr> meta = Some \<lparr> total_entries = 3 \<rparr>, entries = Some sample_entries \<rparr>"
    by (simp add: sample_getDatabase)
  have n: "(- 1 :: int) \<noteq> 0 \<and> (- 1 :: int) < 1" by simp
  from zero_is_default [of "mk_config None None" sample_engine
      "sample_db_env 1700000000000 (ArrayData sample_entries)" "Some True" initial_state]
    db n
  have "map_sum id recent_entries
     (fst (getRecentPhish (mk_config None None) sample_engine
        (sample_db_env 1700000000000 (ArrayData sample_entries)) (Some (- 1)) (Some True)
        initial_state))
     = Inr (js_slice0 (- 1) (js_sort (by_submission_desc sample_engine)
         (if Some True = Some True
          then entries_of \<lparr> meta = Some \<lparr> total_entries = 3 \<rparr>, entries = Some sample_entries \<rparr>
          else filter (\<lambda>entry. online entry = ''yes'')
                 (entries_of \<lparr> meta = Some \<lparr> total_entries = 3 \<rparr>,
                               entries = Some sample_entries \<rparr>))))"
    by blast
  then show ?thesis
    by (simp add: entries_of_def sample_sort js_slice0_def)
qed


text \<open>
  Where the submission times are readable, the comparator of the handlers is a
  consistent order, and \<open>sort\<close> with it is the stable sort by descending submission
  time.
\<close>

lemma js_insert_insort:
  assumes "new_Date engine (submission_time x) \<noteq> None"
    and "\<forall>e\<in>set ys. new_Date engine (submission_time e) \<noteq> None"
  shows "js_insert (by_submission_desc engine) x ys
           = insort_key (\<lambda>e. - submission_ms engine e) x ys"
  using assms
  by (induction ys) (auto simp: by_submission_desc_def num_sub_def submission_ms_def)

lemma js_sort_by_submission:
  assumes "\<forall>e\<in>set xs. new_Date engine (submission_time e) \<noteq> None"
  shows "js_sort (by_submission_desc engine) xs
           = sort_key (\<lambda>e. - submission_ms engine e) xs"
  using assms
proof (induction xs)
  case Nil
  then show ?case by (simp add: js_sort_def)
next
  case (Cons x xs)
  then have ih: "js_sort (by_submission_desc engine) xs
           = sort_key (\<lambda>e. - submission_ms engine e) xs" by simp
  have "\<forall>e\<in>set (sort_key (\<lambda>e. - submission_ms engine e) xs).
          new_Date engine (submission_time e) \<noteq> None"
    using Cons.prems by simp
  with Cons.prems ih show ?case
    by (simp add: js_sort_def js_insert_insort)
qed

lemma sorted_desc_sort_key:
  "sorted_wrt (\<lambda>a b. submission_ms engine b \<le> submission_ms engine a)
     (sort_key (\<lambda>e. - submission_ms engine e) xs)"
proof -
  have "sorted (map (\<lambda>e. - submission_ms engine e) (sort_key (\<lambda>e. - submission_ms engine e) xs))"
    by (rule sorted_sort_key)
  then show ?thesis
    by (simp add: sorted_map sorted_wrt_iff_nth_less)
qed

lemma mset_js_insert: "mset (js_insert cmp x ys) = add_mset x (mset ys)"
  by (induction ys) simp_all

lemma mset_js_sort: "mset (js_sort cmp xs) = mset xs"
  by (induction xs) (simp_all add: js_sort_def mset_js_insert)

text \<open>
  C8 (amended). For every snapshot and every target query that is not empty after
  \<open>trim\<close> and \<open>toLowerCase\<close>, \<open>search_phish_by_target\<close> returns \<open>slice(0, limit)\<close> of a
  list that holds exactly the entries whose target field contains the trimmed query as
  a case-insensitive substring, that is, whose target field in lower case contains the
  trimmed query in lower case (an entry with no target field never matches), and,
  unless \<open>verified_only\<close> is explicitly false, whose verified field is \<open>yes\<close>; where
  the submission times of these entries are readable, the list is sorted by
  submission time, most recent first. The limit is \<open>min(limit, 500)\<close>, 50 when the
  argument is absent or 0; for a limit that is not negative the answer is the first
  limit entries.
\<close>

theorem searchPhishByTarget_answer:
  assumes db: "fst (getDatabase cfg env st) = Inr db"
    and query: "toLowerCase (trim (str_or target_arg [])) \<noteq> []"
  shows "\<exists>p ys. fst (searchPhishByTarget cfg trim toLowerCase engine env target_arg limit_arg vo_arg st) = Inr p \<and>
           mset ys = mset (filter (spec_matches_target toLowerCase (trim (str_or target_arg [])) vo_arg)
                             (entries_of db)) \<and>
           ((\<forall>e\<in>set ys. new_Date engine (submission_time e) \<noteq> None) \<longrightarrow>
              ys = sort_key (\<lambda>e. - submission_ms engine e)
                     (filter (spec_matches_target toLowerCase (trim (str_or target_arg [])) vo_arg)
                        (entries_of db)) \<and>
              sorted_wrt (\<lambda>a b. submission_ms engine b \<le> submission_ms engine a) ys) \<and>
           target_entries p = js_slice0 (min (num_or limit_arg 50) 500) ys \<and>
           (0 \<le> num_or limit_arg 50 \<longrightarrow>
              target_entries p = take (nat (min (num_or limit_arg 50) 500)) ys)"
proof -
  let ?q = "toLowerCase (trim (str_or target_arg []))"
  let ?spec = "spec_matches_target toLowerCase (trim (str_or target_arg [])) vo_arg"
  let ?kept = "filter ?spec (entries_of db)"
  let ?ys = "js_sort (by_submission_desc engine) ?kept"
  let ?L = "min (num_or limit_arg 50) 500"
  let ?p = "\<lparr> search_target = ?q, verified_only = (vo_arg \<noteq> Some False),
              target_matches_found = length (js_slice0 ?L ?ys),
              target_entries = js_slice0 ?L ?ys \<rparr>"
  have q: "?q \<noteq> []" by (rule query)
  have m: "matches_target toLowerCase ?q (vo_arg \<noteq> Some False) = ?spec"
    by (rule ext)
       (auto simp: matches_target_def spec_matches_target_def js_includes_def Let_def
             split: option.splits)
  have eo: "(case entries db of None \<Rightarrow> [] | Some xs \<Rightarrow> xs) = entries_of db"
    by (simp add: entries_of_def)
  have run: "fst (searchPhishByTarget cfg trim toLowerCase engine env target_arg limit_arg vo_arg st) = Inr ?p"
    using db q by (simp add: searchPhishByTarget_def Let_def m eo)
  have sel: "target_entries ?p = js_slice0 ?L ?ys" by simp
  have perm: "mset ?ys = mset ?kept" by (rule mset_js_sort)
  have srt: "(\<forall>e\<in>set ?ys. new_Date engine (submission_time e) \<noteq> None) \<longrightarrow>
      ?ys = sort_key (\<lambda>e. - submission_ms engine e) ?kept \<and>
      sorted_wrt (\<lambda>a b. submission_ms engine b \<le> submission_ms engine a) ?ys"
  proof
    assume "\<forall>e\<in>set ?ys. new_Date engine (submission_time e) \<noteq> None"
    moreover have "set ?ys = set ?kept" using perm by (rule mset_eq_setD)
    ultimately have t: "\<forall>e\<in>set ?kept. new_Date engine (submission_time e) \<noteq> None"
      by simp
    have eq: "?ys = sort_key (\<lambda>e. - submission_ms engine e) ?kept"
      by (rule js_sort_by_submission [OF t])
    have "sorted_wrt (\<lambda>a b. submission_ms engine b \<le> submission_ms engine a)
            (sort_key (\<lambda>e. - submission_ms engine e) ?kept)"
      by (rule sorted_desc_sort_key)
    with eq show "?ys = sort_key (\<lambda>e. - submission_ms engine e) ?kept \<and>
      sorted_wrt (\<lambda>a b. submission_ms engine b \<le> submission_ms engine a) ?ys"
      by simp
  qed
  have tk: "0 \<le> num_or limit_arg 50 \<longrightarrow> js_slice0 ?L ?ys = take (nat ?L) ?ys"
    by (simp add: js_slice0_def)
  show ?thesis
  proof (intro exI [of _ ?p] exI [of _ ?ys] conjI)
    show "fst (searchPhishByTarget cfg trim toLowerCase engine env target_arg limit_arg vo_arg st) = Inr ?p"
      by (rule run)
    show "mset ?ys = mset ?kept" by (rule perm)
    show "(\<forall>e\<in>set ?ys. new_Date engine (submission_time e) \<noteq> None) \<longrightarrow>
      ?ys = sort_key (\<lambda>e. - submission_ms engine e) ?kept \<and>
      sorted_wrt (\<lambda>a b. submission_ms engine b \<le> submission_ms engine a) ?ys"
      by (rule srt)
    show "target_entries ?p = js_slice0 ?L ?ys" by (rule sel)
    show "0 \<le> num_or limit_arg 50 \<longrightarrow> target_entries ?p = take (nat ?L) ?ys"
      unfolding sel by (rule tk)
  qed
qed

lemma lower_samples:
  "sample_toLowerCase ''PayPal'' = ''paypal''"
  "sample_toLowerCase ''PAYPAL'' = ''paypal''"
  "sample_toLowerCase ''Microsoft'' = ''microsoft''"
  "sample_toLowerCase ''of '' = ''of ''"
  "sample_toLowerCase ''of'' = ''of''"
  by code_simp+

lemma trim_samples:
  "sample_trim ''PAYPAL'' = ''PAYPAL''"
  "sample_trim ''of '' = ''of''"
  by (simp_all add: sample_trim_def is_space_def)

theorem searchPhishByTarget_answer_witness:
  "map_sum id target_entries
     (fst (searchPhishByTarget (mk_config None None) sample_trim sample_toLowerCase sample_engine
        (sample_db_env 1700000000000 (ArrayData sample_entries)) (Some ''PAYPAL'') None None
        initial_state))
   = Inr [sample_entry 1 ''2024-01-01T12:00:00+00:00'' ''yes'' ''yes'' (Some ''PayPal'')]"
proof -
  let ?db = "\<lparr> meta = Some \<lparr> total_entries = 3 \<rparr>, entries = Some sample_entries \<rparr>"
  let ?e = "sample_entry 1 ''2024-01-01T12:00:00+00:00'' ''yes'' ''yes'' (Some ''PayPal'')"
  have db: "fst (getDatabase (mk_config None None)
       (sample_db_env 1700000000000 (ArrayData sample_entries)) initial_state) = Inr ?db"
    by (simp add: sample_getDatabase)
  have query: "sample_toLowerCase (sample_trim (str_or (Some ''PAYPAL'') [])) \<noteq> []"
    by (simp add: str_or_def trim_samples lower_samples)
  have kept: "filter (spec_matches_target sample_toLowerCase
                        (sample_trim (str_or (Some ''PAYPAL'') [])) None)
                (entries_of ?db) = [?e]"
    by (simp add: spec_matches_target_def str_or_def trim_samples entries_of_def
        sample_entries_def sample_entry_def lower_samples sublist_code)
  from searchPhishByTarget_answer [where trim = sample_trim
      and toLowerCase = sample_toLowerCase and engine = sample_engine
      and target_arg = "Some ''PAYPAL''" and limit_arg = None and vo_arg = None, OF db query]
  obtain p ys where p: "fst (searchPhishByTarget (mk_config None None) sample_trim sample_toLowerCase sample_engine
        (sample_db_env 1700000000000 (ArrayData sample_entries)) (Some ''PAYPAL'') None None
        initial_state) = Inr p"
    and ys: "mset ys = mset [?e]"
    and sl: "target_entries p = js_slice0 (min (num_or None 50) 500) ys"
    unfolding kept by blast
  from ys have "ys = [?e]" by (cases ys) auto
  with p sl show ?thesis by (simp add: num_or_def js_slice0_def)
qed


text \<open>
  The claim as stated fails for a query with white space at its end: the handler trims
  the query, so \<open>"of "\<close> finds the target \<open>Microsoft\<close>, which does not contain
  \<open>"of "\<close> (the strings are ASCII, where \<open>sample_trim\<close> and \<open>sample_toLowerCase\<close> are
  the runtime's \<open>trim\<close> and \<open>toLowerCase\<close>).
\<close>

theorem searchPhishByTarget_trim_counterexample:
  "\<not> js_includes (sample_toLowerCase ''Microsoft'') (sample_toLowerCase ''of '')
   \<and> map_sum id target_entries
     (fst (searchPhishByTarget (mk_config None None) sample_trim sample_toLowerCase sample_engine
        (sample_db_env 1700000000000 (ArrayData sample_entries)) (Some ''of '') None None
        initial_state))
   = Inr [sample_entry 2 ''2024-01-02T00:00:00+00:00'' ''yes'' ''yes'' (Some ''Microsoft'')]"
proof -
  have kept: "filter (matches_target sample_toLowerCase ''of'' True) sample_entries
      = [sample_entry 2 ''2024-01-02T00:00:00+00:00'' ''yes'' ''yes'' (Some ''Microsoft'')]"
    by (simp add: matches_target_def js_includes_def sublist_code sample_entries_def
        sample_entry_def lower_samples)
  have "\<not> js_includes (sample_toLowerCase ''Microsoft'') (sample_toLowerCase ''of '')"
    by (simp add: js_includes_def sublist_code lower_samples)
  then show ?thesis
    by (simp add: searchPhishByTarget_def Let_def sample_getDatabase str_or_def trim_samples
        lower_samples num_or_def kept js_sort_def js_slice0_def)
qed

text \<open>
  C7. For valid dates with the start not after the end, \<open>search_phish_by_date\<close> is to
  return the entries submitted from 00:00:00.000 of the start date to 23:59:59.999 of
  the end date. The code does so only where the server's local time is UTC: the start
  date is read as midnight UTC, while \<open>setHours(23, 59, 59, 999)\<close> sets the end to
  the end of a local day. Five hours west of UTC, the search from 2024-01-01 to
  2024-01-01 ends at 04:59:59.999 UTC of that day and misses the entry submitted at
  noon UTC.
\<close>

theorem searchPhishByDate_local_end_of_day:
  "fst (searchPhishByDate (mk_config None None) sample_engine (- 18000000)
          (sample_db_env 1700000000000 (ArrayData sample_entries))
          (Some ''2024-01-01'') (Some ''2024-01-01'') None initial_state)
   = Inr \<lparr> date_range_start = ''2024-01-01'', date_range_end = ''2024-01-01'',
           date_matches_found = 0, date_entries = [] \<rparr>"
proof -
  have kept: "filter (\<lambda>entry.
        date_ge (new_Date sample_engine (submission_time entry)) (Some 1704067200000) \<and>
        date_le (new_Date sample_engine (submission_time entry)) (Some 1704085199999))
      sample_entries = []"
    by (simp add: sample_entries_def sample_entry_def new_Date_samples date_ge_def date_le_def)
  show ?thesis
    by (simp add: searchPhishByDate_def Let_def str_or_def num_or_def dateRegex_test_def
        is_digit_def new_Date_samples setHours_end_of_day_def msPerDay_def date_gt_def
        sample_getDatabase kept js_sort_def js_slice0_def)
qed

theorem searchPhishByDate_local_end_of_day_witness:
  "map_sum id date_matches_found
     (fst (searchPhishByDate (mk_config None None) sample_engine (- 18000000)
          (sample_db_env 1700000000000 (ArrayData sample_entries))
          (Some ''2024-01-01'') (Some ''2024-01-01'') None initial_state)) = Inr 0
   \<and> new_Date sample_engine
         (submission_time (sample_entry 1 ''2024-01-01T12:00:00+00:00'' ''yes'' ''yes''
                             (Some ''PayPal''))) = Some 1704110400000
   \<and> new_Date sample_engine ''2024-01-01'' = Some 1704067200000
   \<and> setHours_end_of_day (- 18000000) (new_Date sample_engine ''2024-01-01'')
       = Some 1704085199999"
  using searchPhishByDate_local_end_of_day
  by (simp add: new_Date_samples sample_entry_def setHours_end_of_day_def msPerDay_def)

text \<open>With local time equal to UTC the same search returns the entry.\<close>

lemma searchPhishByDate_utc_sample:
  "fst (searchPhishByDate (mk_config None None) sample_engine 0
          (sample_db_env 1700000000000 (ArrayData sample_entries))
          (Some ''2024-01-01'') (Some ''2024-01-01'') None initial_state)
   = Inr \<lparr> date_range_start = ''2024-01-01'', date_range_end = ''2024-01-01'',
           date_matches_found = 1,
           date_entries = [sample_entry 1 ''2024-01-01T12:00:00+00:00'' ''yes'' ''yes''
                             (Some ''PayPal'')] \<rparr>"
proof -
  have kept: "filter (\<lambda>entry.
        date_ge (new_Date sample_engine (submission_time entry)) (Some 1704067200000) \<and>
        date_le (new_Date sample_engine (submission_time entry)) (Some 1704153599999))
      sample_entries
      = [sample_entry 1 ''2024-01-01T12:00:00+00:00'' ''yes'' ''yes'' (Some ''PayPal'')]"
    by (simp add: sample_entries_def sample_entry_def new_Date_samples date_ge_def date_le_def)
  show ?thesis
    by (simp add: searchPhishByDate_def Let_def str_or_def num_or_def dateRegex_test_def
        is_digit_def new_Date_samples setHours_end_of_day_def msPerDay_def date_gt_def
        sample_getDatabase kept js_sort_def js_slice0_def)
qed

lemma parse_date_only_day:
  assumes "parse_date_only s = Some t"
  shows "s \<noteq> [] \<and> dateRegex_test s \<and> (t div msPerDay) * msPerDay = t"
  using assms
  by (auto simp: parse_date_only_def Let_def msPerDay_def dateRegex_test_def split: if_splits)

lemma end_of_utc_day:
  assumes "(t div msPerDay) * msPerDay = t"
  shows "setHours_end_of_day 0 (Some t) = Some (t + 86399999)"
  using assms by (simp add: setHours_end_of_day_def)

lemma whole_days_gt:
  assumes "(s div msPerDay) * msPerDay = s" and "(e div msPerDay) * msPerDay = e"
  shows "(s > e + 86399999) = (s > e)"
proof -
  from assms obtain a b where "s = a * 86400000" "e = b * 86400000"
    unfolding msPerDay_def by metis
  then show ?thesis by auto
qed

text \<open>
  With local time equal to UTC, and for calendar dates, the handler does what the claim
  says: it fails when the start date is after the end date, and otherwise returns the
  entries submitted from midnight of the start date to 23:59:59.999 of the end date,
  most recent first, cut by \<open>slice(0, limit)\<close>.
\<close>

lemma searchPhishByDate_utc:
  assumes sd: "parse_date_only start_date = Some s"
    and ed: "parse_date_only end_date = Some e"
    and db: "fst (getDatabase cfg env st) = Inr db"
  shows "fst (searchPhishByDate cfg engine 0 env (Some start_date) (Some end_date) limit_arg st)
     = (if e < s then Inl (McpError InvalidParams ''Start date must be before end date'')
        else Inr \<lparr> date_range_start = start_date, date_range_end = end_date,
               date_matches_found = length
                 (js_slice0 (min (num_or limit_arg 100) 500)
                    (sort_key (\<lambda>x. - submission_ms engine x)
                       (filter (\<lambda>x. case new_Date engine (submission_time x) of
                                     None \<Rightarrow> False
                                   | Some t \<Rightarrow> s \<le> t \<and> t \<le> e + 86399999)
                          (entries_of db)))),
               date_entries =
                 js_slice0 (min (num_or limit_arg 100) 500)
                    (sort_key (\<lambda>x. - submission_ms engine x)
                       (filter (\<lambda>x. case new_Date engine (submission_time x) of
                                     None \<Rightarrow> False
                                   | Some t \<Rightarrow> s \<le> t \<and> t \<le> e + 86399999)
                          (entries_of db))) \<rparr>)"
proof -
  note s = parse_date_only_day [OF sd] and e = parse_date_only_day [OF ed]
  let ?in = "\<lambda>x. case new_Date engine (submission_time x) of
                    None \<Rightarrow> False
                  | Some t \<Rightarrow> s \<le> t \<and> t \<le> e + 86399999"
  have ns: "new_Date engine start_date = Some s" and ne: "new_Date engine end_date = Some e"
    using sd ed by (simp_all add: new_Date_def)
  have en: "setHours_end_of_day 0 (new_Date engine end_date) = Some (e + 86399999)"
    using e by (simp add: ne end_of_utc_day)
  have gt: "date_gt (Some s) (Some (e + 86399999)) = (e < s)"
    using whole_days_gt [of s e] s e by (simp add: date_gt_def)
  have f: "(\<lambda>entry. date_ge (new_Date engine (submission_time entry)) (Some s) \<and>
                    date_le (new_Date engine (submission_time entry)) (Some (e + 86399999)))
           = ?in"
    by (rule ext) (auto simp: date_ge_def date_le_def split: option.splits)
  have t: "\<forall>x\<in>set (filter ?in (entries_of db)). new_Date engine (submission_time x) \<noteq> None"
    by (auto split: option.splits)
  have eo: "(case entries db of None \<Rightarrow> [] | Some xs \<Rightarrow> xs) = entries_of db"
    by (simp add: entries_of_def)
  show ?thesis
  proof (cases "e < s")
    case True
    with s e show ?thesis
      by (simp add: searchPhishByDate_def Let_def str_or_def ns en gt)
  next
    case False
    with s e db show ?thesis
      by (simp add: searchPhishByDate_def Let_def str_or_def ns en gt f eo
                    js_sort_by_submission [OF t])
  qed
qed


end
